theory Spec2Isabelle
  imports Complex_Main "HOL-Library.Char_ord" "HOL-Library.List_Lexorder" "HOL-Library.Multiset"
begin

section \<open>Python values\<close>

text \<open>
  A Python float is a real number, an infinity or NaN. The operations the alert rules and
  the threshold check apply to floats (\<open>abs\<close>, \<open><\<close>, \<open>>\<close>, \<open>>=\<close>, \<open>==\<close>) are exact
  on floats, so the real number a float denotes is all a comparison needs; a decimal
  literal of the source (\<open>0.01\<close>) stands for the number it writes.
\<close>

datatype pyfloat = NaN | NInf | Fin real | PInf

fun fabs :: "pyfloat \<Rightarrow> pyfloat" where
  "fabs NaN = NaN"
| "fabs NInf = PInf"
| "fabs PInf = PInf"
| "fabs (Fin r) = Fin \<bar>r\<bar>"

text \<open>\<open>flt a b\<close> is \<open>a < b\<close>: every comparison with NaN is false.\<close>

fun flt :: "pyfloat \<Rightarrow> pyfloat \<Rightarrow> bool" where
  "flt NaN _ = False"
| "flt _ NaN = False"
| "flt NInf NInf = False"
| "flt NInf _ = True"
| "flt (Fin a) NInf = False"
| "flt (Fin a) (Fin b) = (a < b)"
| "flt (Fin a) PInf = True"
| "flt PInf _ = False"

text \<open>\<open>feq a b\<close> is \<open>a == b\<close>: NaN equals nothing, itself included.\<close>

fun feq :: "pyfloat \<Rightarrow> pyfloat \<Rightarrow> bool" where
  "feq NaN _ = False"
| "feq _ NaN = False"
| "feq a b = (a = b)"

definition fgt :: "pyfloat \<Rightarrow> pyfloat \<Rightarrow> bool" where
  "fgt a b = flt b a"

definition fge :: "pyfloat \<Rightarrow> pyfloat \<Rightarrow> bool" where
  "fge a b = (flt b a \<or> feq a b)"

text \<open>
  The values a summary dictionary holds. A dictionary is an association list in insertion
  order, with distinct keys.
\<close>

datatype pyval =
    VNone
  | VBool bool
  | VInt int
  | VFloat pyfloat
  | VStr string
  | VList "pyval list"
  | VDict "(string \<times> pyval) list"

type_synonym pydict = "(string \<times> pyval) list"

datatype exn_kind =
    KeyError | TypeError | ValueError | AssertionError | DataError | IndexError
  | NotImplementedError | OtherError

text \<open>
  An exception is its class and its message. The messages of the exceptions the model
  raises itself name the key or the operator; they are not the interpreter's wording.
\<close>

datatype exn = Exn exn_kind string

fun exn_str :: "exn \<Rightarrow> string" where
  "exn_str (Exn k m) = m"

section \<open>Dictionaries\<close>

fun dict_set :: "(string \<times> 'v) list \<Rightarrow> string \<Rightarrow> 'v \<Rightarrow> (string \<times> 'v) list" where
  "dict_set [] k v = [(k, v)]"
| "dict_set ((k', v') # d) k v = (if k' = k then (k, v) # d else (k', v') # dict_set d k v)"

definition dict_get :: "(string \<times> 'v) list \<Rightarrow> string \<Rightarrow> 'v \<Rightarrow> 'v" where
  "dict_get d k dflt = (case map_of d k of None \<Rightarrow> dflt | Some v \<Rightarrow> v)"

definition dict_item :: "(string \<times> 'v) list \<Rightarrow> string \<Rightarrow> exn + 'v" where
  "dict_item d k = (case map_of d k of None \<Rightarrow> Inl (Exn KeyError k) | Some v \<Rightarrow> Inr v)"

definition dict_contains :: "(string \<times> 'v) list \<Rightarrow> string \<Rightarrow> bool" where
  "dict_contains d k = (map_of d k \<noteq> None)"

text \<open>A dict comprehension: the items are stored one by one, a repeated key overwrites.\<close>

definition dict_of_items :: "(string \<times> 'v) list \<Rightarrow> (string \<times> 'v) list" where
  "dict_of_items items = foldl (\<lambda>d (k, v). dict_set d k v) [] items"

text \<open>\<open>d.update(m)\<close>\<close>

definition dict_update :: "(string \<times> 'v) list \<Rightarrow> (string \<times> 'v) list \<Rightarrow> (string \<times> 'v) list" where
  "dict_update d m = foldl (\<lambda>d (k, v). dict_set d k v) d m"

section \<open>correlations.py: the threshold check\<close>

text \<open>
  A DataFrame: its column labels and its rows of cells (\<open>.columns\<close> and \<open>.values\<close>).
  Every row of a DataFrame has one cell per column; \<open>len\<close> is the number of rows.
\<close>

record 'a DataFrame =
  df_columns :: "string list"
  df_values :: "'a list list"

definition df_len :: "'a DataFrame \<Rightarrow> nat" where
  "df_len df = length (df_values df)"

text \<open>
  Row \<open>i\<close> of \<open>bool_index\<close> after \<open>np.fill_diagonal(bool_index, False)\<close>:
  cell \<open>j\<close> is \<open>abs(values[i][j]) >= threshold\<close>, and False on the diagonal.
\<close>

definition bool_index_row :: "pyfloat \<Rightarrow> nat \<Rightarrow> pyfloat list \<Rightarrow> bool list" where
  "bool_index_row threshold i row =
     map (\<lambda>(j, v). j \<noteq> i \<and> fge (fabs v) threshold) (enumerate 0 row)"

definition bool_index_of :: "pyfloat DataFrame \<Rightarrow> pyfloat \<Rightarrow> bool list list" where
  "bool_index_of correlation_matrix threshold =
     map (\<lambda>(i, row). bool_index_row threshold i row) (enumerate 0 (df_values correlation_matrix))"

text \<open>\<open>cols[mask].values.tolist()\<close>: the labels at the positions where the mask is set.\<close>

definition mask_select :: "string list \<Rightarrow> bool list \<Rightarrow> string list" where
  "mask_select cols row_mask = map fst (filter snd (zip cols row_mask))"

text \<open>
  \<open>bool_index[i]\<close> raises IndexError when the matrix has fewer rows than columns; the
  comprehension then raises as a whole.
\<close>

definition perform_check_correlation ::
  "pyfloat DataFrame \<Rightarrow> pyfloat \<Rightarrow> exn + (string \<times> string list) list" where
  "perform_check_correlation correlation_matrix threshold =
     (let cols = df_columns correlation_matrix;
          bool_index = bool_index_of correlation_matrix threshold
      in if length bool_index < length cols then Inl (Exn IndexError ''bool_index'')
         else Inr (dict_of_items
           (map (\<lambda>(i, col). (col, mask_select cols (bool_index ! i)))
             (filter (\<lambda>(i, col). list_ex id (bool_index ! i)) (enumerate 0 cols)))))"

section \<open>Operators on Python values\<close>

definition ebind :: "exn + 'a \<Rightarrow> ('a \<Rightarrow> exn + 'b) \<Rightarrow> exn + 'b" where
  "ebind x f = (case x of Inl e \<Rightarrow> Inl e | Inr v \<Rightarrow> f v)"

text \<open>The number a value is in a comparison (\<open>bool\<close> is a subclass of \<open>int\<close>).\<close>

fun num_of :: "pyval \<Rightarrow> pyfloat option" where
  "num_of (VBool b) = Some (Fin (if b then 1 else 0))"
| "num_of (VInt i) = Some (Fin (real_of_int i))"
| "num_of (VFloat x) = Some x"
| "num_of _ = None"

text \<open>
  \<open>a == b\<close>. Numbers are compared by value, containers item by item; a value of one kind
  never equals a value of another. (Python's containers first compare their items by
  identity; the model has values only.)
\<close>

fun py_eq :: "pyval \<Rightarrow> pyval \<Rightarrow> bool"
  and py_eq_list :: "pyval list \<Rightarrow> pyval list \<Rightarrow> bool"
  and py_eq_items :: "(string \<times> pyval) list \<Rightarrow> (string \<times> pyval) list \<Rightarrow> bool" where
  "py_eq a b =
     (case a of
        VNone \<Rightarrow> (case b of VNone \<Rightarrow> True | _ \<Rightarrow> False)
      | VStr s \<Rightarrow> (case b of VStr t \<Rightarrow> s = t | _ \<Rightarrow> False)
      | VList xs \<Rightarrow> (case b of VList ys \<Rightarrow> py_eq_list xs ys | _ \<Rightarrow> False)
      | VDict d \<Rightarrow> (case b of VDict d' \<Rightarrow> length d = length d' \<and> py_eq_items d d' | _ \<Rightarrow> False)
      | _ \<Rightarrow> (case (num_of a, num_of b) of (Some x, Some y) \<Rightarrow> feq x y | _ \<Rightarrow> False))"
| "py_eq_list [] ys = (ys = [])"
| "py_eq_list (x # xs) ys = (case ys of [] \<Rightarrow> False | y # ys' \<Rightarrow> py_eq x y \<and> py_eq_list xs ys')"
| "py_eq_items [] d' = True"
| "py_eq_items ((k, v) # d) d' =
     ((case map_of d' k of None \<Rightarrow> False | Some v' \<Rightarrow> py_eq v v') \<and> py_eq_items d d')"

declare py_eq.simps [simp del]

text \<open>\<open>v > t\<close> and \<open>v < t\<close> for a number \<open>t\<close>: only a number can be ordered with a number.\<close>

definition py_gt_num :: "pyval \<Rightarrow> pyfloat \<Rightarrow> exn + bool" where
  "py_gt_num v t = (case num_of v of None \<Rightarrow> Inl (Exn TypeError ''>'') | Some x \<Rightarrow> Inr (fgt x t))"

definition py_lt_num :: "pyval \<Rightarrow> pyfloat \<Rightarrow> exn + bool" where
  "py_lt_num v t = (case num_of v of None \<Rightarrow> Inl (Exn TypeError ''<'') | Some x \<Rightarrow> Inr (flt x t))"

text \<open>The truth value of \<open>v\<close> in a condition.\<close>

fun py_truthy :: "pyval \<Rightarrow> bool" where
  "py_truthy VNone = False"
| "py_truthy (VBool b) = b"
| "py_truthy (VInt i) = (i \<noteq> 0)"
| "py_truthy (VFloat x) = (x \<noteq> Fin 0)"
| "py_truthy (VStr s) = (s \<noteq> [])"
| "py_truthy (VList xs) = (xs \<noteq> [])"
| "py_truthy (VDict d) = (d \<noteq> [])"

text \<open>\<open>v[k]\<close> for a string key \<open>k\<close>: only a dictionary has string keys.\<close>

fun py_getitem :: "pyval \<Rightarrow> string \<Rightarrow> exn + pyval" where
  "py_getitem (VDict d) k = dict_item d k"
| "py_getitem _ k = Inl (Exn TypeError ''[]'')"

text \<open>
  The truth value of \<open>pd.isna(v)\<close>. Of a scalar it is whether the scalar is None or NaN.
  Of a list pandas returns the array of the answers for the items, and an array has a truth
  value only when it holds exactly one item.
\<close>

fun pd_isna :: "pyval \<Rightarrow> exn + bool" where
  "pd_isna VNone = Inr True"
| "pd_isna (VFloat x) = Inr (x = NaN)"
| "pd_isna (VList [v]) = pd_isna v"
| "pd_isna (VList xs) = Inl (Exn ValueError ''truth value of an array'')"
| "pd_isna _ = Inr False"

section \<open>alerts.py\<close>

datatype AlertType =
    CONSTANT | ZEROS | HIGH_CORRELATION | HIGH_CARDINALITY | UNSUPPORTED | DUPLICATES
  | SKEWED | IMBALANCE | MISSING | INFINITE | TYPE_DATE | UNIQUE | CONSTANT_LENGTH
  | REJECTED | UNIFORM | NON_STATIONARY | SEASONAL | EMPTY

text \<open>\<open>alert_type.name\<close>\<close>

fun AlertType_name :: "AlertType \<Rightarrow> string" where
  "AlertType_name CONSTANT = ''CONSTANT''"
| "AlertType_name ZEROS = ''ZEROS''"
| "AlertType_name HIGH_CORRELATION = ''HIGH_CORRELATION''"
| "AlertType_name HIGH_CARDINALITY = ''HIGH_CARDINALITY''"
| "AlertType_name UNSUPPORTED = ''UNSUPPORTED''"
| "AlertType_name DUPLICATES = ''DUPLICATES''"
| "AlertType_name SKEWED = ''SKEWED''"
| "AlertType_name IMBALANCE = ''IMBALANCE''"
| "AlertType_name MISSING = ''MISSING''"
| "AlertType_name INFINITE = ''INFINITE''"
| "AlertType_name TYPE_DATE = ''TYPE_DATE''"
| "AlertType_name UNIQUE = ''UNIQUE''"
| "AlertType_name CONSTANT_LENGTH = ''CONSTANT_LENGTH''"
| "AlertType_name REJECTED = ''REJECTED''"
| "AlertType_name UNIFORM = ''UNIFORM''"
| "AlertType_name NON_STATIONARY = ''NON_STATIONARY''"
| "AlertType_name SEASONAL = ''SEASONAL''"
| "AlertType_name EMPTY = ''EMPTY''"

text \<open>\<open>str(alert_type)\<close>, the sort key of \<open>get_alerts\<close>.\<close>

definition AlertType_str :: "AlertType \<Rightarrow> string" where
  "AlertType_str t = ''AlertType.'' @ AlertType_name t"

text \<open>
  The class \<open>Alert\<close>. Its attribute \<open>values\<close> is the field \<open>alert_values\<close> here, \<open>fields\<close> is \<open>alert_fields\<close> and
  \<open>_is_empty\<close> is \<open>is_empty\<close>.
\<close>

record Alert =
  alert_type :: AlertType
  alert_values :: pydict
  column_name :: "string option"
  alert_fields :: "string set"
  is_empty :: bool

text \<open>\<open>Alert.__init__\<close>: an absent \<open>fields\<close> is the empty set, an absent \<open>values\<close> is \<open>{}\<close>.\<close>

definition Alert_init ::
  "AlertType \<Rightarrow> pydict option \<Rightarrow> string option \<Rightarrow> string set option \<Rightarrow> bool \<Rightarrow> Alert" where
  "Alert_init t vs col fs e =
     \<lparr>alert_type = t,
      alert_values = (case vs of None \<Rightarrow> [] | Some d \<Rightarrow> d),
      column_name = col,
      alert_fields = (case fs of None \<Rightarrow> {} | Some s \<Rightarrow> s),
      is_empty = e\<rparr>"

definition ConstantLengthAlert :: "pydict option \<Rightarrow> string option \<Rightarrow> bool \<Rightarrow> Alert" where
  "ConstantLengthAlert vs col e =
     Alert_init CONSTANT_LENGTH vs col (Some {''composition_min_length'', ''composition_max_length''}) e"

definition ConstantAlert :: "pydict option \<Rightarrow> string option \<Rightarrow> bool \<Rightarrow> Alert" where
  "ConstantAlert vs col e = Alert_init CONSTANT vs col (Some {''n_distinct''}) e"

definition DuplicatesAlert :: "pydict option \<Rightarrow> string option \<Rightarrow> bool \<Rightarrow> Alert" where
  "DuplicatesAlert vs col e = Alert_init DUPLICATES vs col (Some {''n_duplicates''}) e"

definition EmptyAlert :: "pydict option \<Rightarrow> string option \<Rightarrow> bool \<Rightarrow> Alert" where
  "EmptyAlert vs col e = Alert_init EMPTY vs col (Some {''n''}) e"

definition HighCardinalityAlert :: "pydict option \<Rightarrow> string option \<Rightarrow> bool \<Rightarrow> Alert" where
  "HighCardinalityAlert vs col e = Alert_init HIGH_CARDINALITY vs col (Some {''n_distinct''}) e"

definition HighCorrelationAlert :: "pydict option \<Rightarrow> string option \<Rightarrow> bool \<Rightarrow> Alert" where
  "HighCorrelationAlert vs col e = Alert_init HIGH_CORRELATION vs col None e"

definition ImbalanceAlert :: "pydict option \<Rightarrow> string option \<Rightarrow> bool \<Rightarrow> Alert" where
  "ImbalanceAlert vs col e = Alert_init IMBALANCE vs col (Some {''imbalance''}) e"

definition InfiniteAlert :: "pydict option \<Rightarrow> string option \<Rightarrow> bool \<Rightarrow> Alert" where
  "InfiniteAlert vs col e = Alert_init INFINITE vs col (Some {''p_infinite'', ''n_infinite''}) e"

definition MissingAlert :: "pydict option \<Rightarrow> string option \<Rightarrow> bool \<Rightarrow> Alert" where
  "MissingAlert vs col e = Alert_init MISSING vs col (Some {''p_missing'', ''n_missing''}) e"

definition NonStationaryAlert :: "pydict option \<Rightarrow> string option \<Rightarrow> bool \<Rightarrow> Alert" where
  "NonStationaryAlert vs col e = Alert_init NON_STATIONARY vs col None e"

definition SeasonalAlert :: "pydict option \<Rightarrow> string option \<Rightarrow> bool \<Rightarrow> Alert" where
  "SeasonalAlert vs col e = Alert_init SEASONAL vs col None e"

definition SkewedAlert :: "pydict option \<Rightarrow> string option \<Rightarrow> bool \<Rightarrow> Alert" where
  "SkewedAlert vs col e = Alert_init SKEWED vs col (Some {''skewness''}) e"

definition TypeDateAlert :: "pydict option \<Rightarrow> string option \<Rightarrow> bool \<Rightarrow> Alert" where
  "TypeDateAlert vs col e = Alert_init TYPE_DATE vs col None e"

definition UniformAlert :: "pydict option \<Rightarrow> string option \<Rightarrow> bool \<Rightarrow> Alert" where
  "UniformAlert vs col e = Alert_init UNIFORM vs col None e"

definition UniqueAlert :: "pydict option \<Rightarrow> string option \<Rightarrow> bool \<Rightarrow> Alert" where
  "UniqueAlert vs col e =
     Alert_init UNIQUE vs col (Some {''n_distinct'', ''p_distinct'', ''n_unique'', ''p_unique''}) e"

definition UnsupportedAlert :: "pydict option \<Rightarrow> string option \<Rightarrow> bool \<Rightarrow> Alert" where
  "UnsupportedAlert vs col e = Alert_init UNSUPPORTED vs col None e"

definition ZerosAlert :: "pydict option \<Rightarrow> string option \<Rightarrow> bool \<Rightarrow> Alert" where
  "ZerosAlert vs col e = Alert_init ZEROS vs col (Some {''n_zeros'', ''p_zeros''}) e"

definition RejectedAlert :: "pydict option \<Rightarrow> string option \<Rightarrow> bool \<Rightarrow> Alert" where
  "RejectedAlert vs col e = Alert_init REJECTED vs col None e"

subsection \<open>The configuration\<close>

text \<open>
  The parts of \<open>Settings\<close> the alert engine and the pipeline read. The fields of
  \<open>config.vars.num\<close>, \<open>config.vars.cat\<close> and \<open>config.vars.bool\<close> carry the group as a prefix.
\<close>

record Vars =
  num_skewness_threshold :: int
  num_chi_squared_threshold :: pyfloat
  cat_cardinality_threshold :: int
  cat_chi_squared_threshold :: pyfloat
  cat_imbalance_threshold :: pyfloat
  bool_imbalance_threshold :: pyfloat

record Correlation =
  calculate :: bool
  warn_high_correlations :: bool
  threshold :: pyfloat

record Settings =
  vars :: Vars
  correlations :: "(string \<times> Correlation) list"
  missing_diagrams :: "(string \<times> bool) list"

subsection \<open>The predicates\<close>

definition alert_value :: "pyval \<Rightarrow> exn + bool" where
  "alert_value v =
     ebind (pd_isna v) (\<lambda>na. if na then Inr False else py_gt_num v (Fin 0.01))"

definition skewness_alert :: "pyval \<Rightarrow> int \<Rightarrow> exn + bool" where
  "skewness_alert v t =
     ebind (pd_isna v) (\<lambda>na.
       if na then Inr False
       else ebind (py_lt_num v (Fin (real_of_int (- 1 * t)))) (\<lambda>lo.
         if lo then Inr True else py_gt_num v (Fin (real_of_int t))))"

text \<open>
  The condition
  \<open>"chi_squared" in summary and summary["chi_squared"]["pvalue"] > threshold\<close>
  of \<open>numeric_alerts\<close> and \<open>categorical_alerts\<close>.
\<close>

definition chi_squared_above :: "pydict \<Rightarrow> pyfloat \<Rightarrow> exn + bool" where
  "chi_squared_above summary t =
     (if dict_contains summary ''chi_squared''
      then ebind (dict_item summary ''chi_squared'') (\<lambda>c.
           ebind (py_getitem c ''pvalue'') (\<lambda>p. py_gt_num p t))
      else Inr False)"

text \<open>The condition \<open>"imbalance" in summary and summary["imbalance"] > threshold\<close>.\<close>

definition imbalance_above :: "pydict \<Rightarrow> pyfloat \<Rightarrow> exn + bool" where
  "imbalance_above summary t =
     (if dict_contains summary ''imbalance''
      then ebind (dict_item summary ''imbalance'') (\<lambda>v. py_gt_num v t)
      else Inr False)"

subsection \<open>The rules\<close>

text \<open>\<open>if c: alerts.append(a)\<close>\<close>

definition append_if :: "bool \<Rightarrow> Alert \<Rightarrow> Alert list" where
  "append_if c a = (if c then [a] else [])"

definition check_table_alerts :: "pydict \<Rightarrow> exn + Alert list" where
  "check_table_alerts table =
     ebind (alert_value (dict_get table ''n_duplicates'' (VFloat NaN))) (\<lambda>dup.
     ebind (dict_item table ''n'') (\<lambda>n.
       Inr (append_if dup (DuplicatesAlert (Some table) None False)
          @ append_if (py_eq n (VInt 0)) (EmptyAlert (Some table) None False))))"

definition numeric_alerts :: "Settings \<Rightarrow> pydict \<Rightarrow> exn + Alert list" where
  "numeric_alerts config summary =
     ebind (dict_item summary ''skewness'') (\<lambda>sk.
     ebind (skewness_alert sk (num_skewness_threshold (vars config))) (\<lambda>skewed.
     ebind (dict_item summary ''p_infinite'') (\<lambda>pinf.
     ebind (alert_value pinf) (\<lambda>infinite.
     ebind (dict_item summary ''p_zeros'') (\<lambda>pz.
     ebind (alert_value pz) (\<lambda>zeros.
     ebind (chi_squared_above summary (num_chi_squared_threshold (vars config))) (\<lambda>uniform.
       Inr (append_if skewed (SkewedAlert (Some summary) None False)
          @ append_if infinite (InfiniteAlert (Some summary) None False)
          @ append_if zeros (ZerosAlert (Some summary) None False)
          @ append_if uniform (UniformAlert None None False)))))))))"

definition timeseries_alerts :: "Settings \<Rightarrow> pydict \<Rightarrow> exn + Alert list" where
  "timeseries_alerts config summary =
     ebind (numeric_alerts config summary) (\<lambda>alerts.
     ebind (dict_item summary ''stationary'') (\<lambda>stationary.
     ebind (dict_item summary ''seasonal'') (\<lambda>seasonal.
       Inr (alerts
          @ append_if (\<not> py_truthy stationary) (NonStationaryAlert None None False)
          @ append_if (py_truthy seasonal) (SeasonalAlert None None False)))))"

text \<open>The condition \<open>"composition" in summary and summary["min_length"] == summary["max_length"]\<close>.\<close>

definition constant_length :: "pydict \<Rightarrow> exn + bool" where
  "constant_length summary =
     (if dict_contains summary ''composition''
      then ebind (dict_item summary ''min_length'') (\<lambda>lo.
           ebind (dict_item summary ''max_length'') (\<lambda>hi. Inr (py_eq lo hi)))
      else Inr False)"

definition categorical_alerts :: "Settings \<Rightarrow> pydict \<Rightarrow> exn + Alert list" where
  "categorical_alerts config summary =
     ebind (py_gt_num (dict_get summary ''n_distinct'' (VFloat NaN))
              (Fin (real_of_int (cat_cardinality_threshold (vars config))))) (\<lambda>high.
     ebind (chi_squared_above summary (cat_chi_squared_threshold (vars config))) (\<lambda>uniform.
     ebind (constant_length summary) (\<lambda>const_len.
     ebind (imbalance_above summary (cat_imbalance_threshold (vars config))) (\<lambda>imbalance.
       Inr (append_if high (HighCardinalityAlert (Some summary) None False)
          @ append_if uniform (UniformAlert None None False)
          @ append_if (py_truthy (dict_get summary ''date_warning'' VNone))
              (TypeDateAlert None None False)
          @ append_if const_len (ConstantLengthAlert None None False)
          @ append_if imbalance (ImbalanceAlert (Some summary) None False))))))"

definition boolean_alerts :: "Settings \<Rightarrow> pydict \<Rightarrow> exn + Alert list" where
  "boolean_alerts config summary =
     ebind (imbalance_above summary (bool_imbalance_threshold (vars config))) (\<lambda>imbalance.
       Inr (append_if imbalance (ImbalanceAlert None None False)))"

definition generic_alerts :: "pydict \<Rightarrow> exn + Alert list" where
  "generic_alerts summary =
     ebind (dict_item summary ''p_missing'') (\<lambda>p.
     ebind (alert_value p) (\<lambda>missing.
       Inr (append_if missing (MissingAlert None None False))))"

definition supported_alerts :: "pydict \<Rightarrow> exn + Alert list" where
  "supported_alerts summary =
     ebind (dict_item summary ''n'') (\<lambda>n.
       Inr (append_if (py_eq (dict_get summary ''n_distinct'' (VFloat NaN)) n)
              (UniqueAlert None None False)
          @ append_if (py_eq (dict_get summary ''n_distinct'' (VFloat NaN)) (VInt 1))
              (ConstantAlert (Some summary) None False)))"

definition unsupported_alerts :: "pydict \<Rightarrow> Alert list" where
  "unsupported_alerts summary = [UnsupportedAlert None None False, RejectedAlert None None False]"

text \<open>\<open>if description["type"] == name: alerts += rule(config, description)\<close>\<close>

definition typed_alerts ::
  "pyval \<Rightarrow> string \<Rightarrow> (Settings \<Rightarrow> pydict \<Rightarrow> exn + Alert list) \<Rightarrow> Settings \<Rightarrow> pydict
   \<Rightarrow> exn + Alert list" where
  "typed_alerts ty name rule config description =
     (if py_eq ty (VStr name) then rule config description else Inr [])"

text \<open>The closing loop of \<open>check_variable_alerts\<close> over one alert.\<close>

definition backfill :: "string \<Rightarrow> pydict \<Rightarrow> Alert \<Rightarrow> Alert" where
  "backfill col description a = a\<lparr>column_name := Some col, alert_values := description\<rparr>"

definition check_variable_alerts :: "Settings \<Rightarrow> string \<Rightarrow> pydict \<Rightarrow> exn + Alert list" where
  "check_variable_alerts config col description =
     ebind (generic_alerts description) (\<lambda>generic.
     ebind (dict_item description ''type'') (\<lambda>ty.
     ebind (if py_eq ty (VStr ''Unsupported'') then Inr (unsupported_alerts description)
            else ebind (supported_alerts description) (\<lambda>supported.
                 ebind (typed_alerts ty ''Categorical'' categorical_alerts config description) (\<lambda>cat.
                 ebind (typed_alerts ty ''Numeric'' numeric_alerts config description) (\<lambda>num.
                 ebind (typed_alerts ty ''TimeSeries'' timeseries_alerts config description) (\<lambda>ts.
                 ebind (typed_alerts ty ''Boolean'' boolean_alerts config description) (\<lambda>bl.
                   Inr (supported @ cat @ num @ ts @ bl))))))) (\<lambda>typed.
       Inr (map (backfill col description) (generic @ typed)))))"

subsection \<open>The correlation alert consolidator\<close>

text \<open>
  The body of the loop of \<open>check_correlation_alerts\<close> for one item of \<open>correlations\<close>.
  The statement \<open>set(fields).update(set(correlated_mapping.get(col, [])))\<close> builds a new set
  from \<open>fields\<close>, updates that set and drops it: it changes neither \<open>fields\<close> nor
  \<open>correlations_consolidated\<close>. The assignment \<open>correlations_consolidated[col] = fields\<close>
  is therefore all the inner loop does.
\<close>

definition consolidate_method ::
  "Settings \<Rightarrow> (string \<times> string list) list \<Rightarrow> string \<times> pyfloat DataFrame
   \<Rightarrow> exn + (string \<times> string list) list" where
  "consolidate_method config correlations_consolidated item =
     (case item of (corr, matrix) \<Rightarrow>
        ebind (dict_item (correlations config) corr) (\<lambda>cs.
          if warn_high_correlations cs
          then ebind (perform_check_correlation matrix (threshold cs)) (\<lambda>correlated_mapping.
                 Inr (foldl (\<lambda>acc (col, fs). dict_set acc col fs)
                        correlations_consolidated correlated_mapping))
          else Inr correlations_consolidated))"

fun consolidate ::
  "Settings \<Rightarrow> (string \<times> string list) list \<Rightarrow> (string \<times> pyfloat DataFrame) list
   \<Rightarrow> exn + (string \<times> string list) list" where
  "consolidate config acc [] = Inr acc"
| "consolidate config acc (item # items) =
     ebind (consolidate_method config acc item) (\<lambda>acc'. consolidate config acc' items)"

definition correlation_alert :: "string \<times> string list \<Rightarrow> Alert" where
  "correlation_alert item =
     (case item of (col, fs) \<Rightarrow>
        HighCorrelationAlert
          (Some [(''corr'', VStr ''overall''), (''fields'', VList (map VStr fs))])
          (Some col) False)"

definition check_correlation_alerts ::
  "Settings \<Rightarrow> (string \<times> pyfloat DataFrame) list \<Rightarrow> exn + Alert list" where
  "check_correlation_alerts config corrs =
     ebind (consolidate config [] corrs) (\<lambda>correlations_consolidated.
       Inr (map correlation_alert correlations_consolidated))"

subsection \<open>The alert engine\<close>

text \<open>The loop of \<open>get_alerts\<close> over \<open>series_description.items()\<close>.\<close>

fun variable_alerts :: "Settings \<Rightarrow> (string \<times> pydict) list \<Rightarrow> exn + Alert list" where
  "variable_alerts config [] = Inr []"
| "variable_alerts config ((col, description) # rest) =
     ebind (check_variable_alerts config col description) (\<lambda>alerts.
     ebind (variable_alerts config rest) (\<lambda>more. Inr (alerts @ more)))"

text \<open>\<open>list.sort\<close> is stable, as \<open>sort_key\<close> is.\<close>

definition get_alerts ::
  "Settings \<Rightarrow> pydict \<Rightarrow> (string \<times> pydict) list \<Rightarrow> (string \<times> pyfloat DataFrame) list
   \<Rightarrow> exn + Alert list" where
  "get_alerts config table_stats series_description corrs =
     ebind (check_table_alerts table_stats) (\<lambda>table_alerts.
     ebind (variable_alerts config series_description) (\<lambda>column_alerts.
     ebind (check_correlation_alerts config corrs) (\<lambda>correlation_alerts.
       Inr (sort_key (\<lambda>alert. AlertType_str (alert_type alert))
              (table_alerts @ column_alerts @ correlation_alerts)))))"

section \<open>correlations.py: computing the matrices\<close>

text \<open>
  A call of \<open>warnings.warn\<close> is an entry appended to the list of warnings; the entry keeps
  the two arguments the message is formatted from.
\<close>

datatype warning = CorrelationWarning string string | MissingWarning string string

definition warn_correlation :: "string \<Rightarrow> string \<Rightarrow> warning list \<Rightarrow> warning list" where
  "warn_correlation correlation_name error ws = ws @ [CorrelationWarning correlation_name error]"

definition correlation_measures :: "string list" where
  "correlation_measures = [''auto'', ''pearson'', ''spearman'', ''kendall'', ''cramers'', ''phi_k'']"

text \<open>The exceptions the \<open>except\<close> clause of \<open>calculate_correlation\<close> names.\<close>

fun handled :: "exn \<Rightarrow> bool" where
  "handled (Exn k m) = (k \<in> {ValueError, AssertionError, TypeError, DataError, IndexError})"

text \<open>
  The \<open>compute\<close> methods are registered by the data backends, outside this module:
  \<open>compute name config df summary\<close> stands for
  \<open>correlation_measures[name].compute(config, df, summary)\<close>, which returns a matrix, returns
  None or raises.
\<close>

type_synonym 'a compute =
  "string \<Rightarrow> Settings \<Rightarrow> 'a DataFrame \<Rightarrow> (string \<times> pydict) list \<Rightarrow> exn + pyfloat DataFrame option"

definition calculate_correlation ::
  "'a compute \<Rightarrow> Settings \<Rightarrow> 'a DataFrame \<Rightarrow> string \<Rightarrow> (string \<times> pydict) list \<Rightarrow> warning list
   \<Rightarrow> (exn + pyfloat DataFrame option) \<times> warning list" where
  "calculate_correlation compute config df correlation_name summary ws =
     (if correlation_name \<notin> set correlation_measures
      then (Inl (Exn KeyError correlation_name), ws)
      else (case compute correlation_name config df summary of
              Inl e \<Rightarrow>
                if handled e then (Inr None, warn_correlation correlation_name (exn_str e) ws)
                else (Inl e, ws)
            | Inr None \<Rightarrow> (Inr None, ws)
            | Inr (Some correlation) \<Rightarrow>
                (Inr (if df_len correlation \<le> 0 then None else Some correlation), ws)))"

definition get_active_correlations :: "Settings \<Rightarrow> string list" where
  "get_active_correlations config =
     map fst (filter (\<lambda>(correlation_name, c). calculate c) (correlations config))"

section \<open>missing.py\<close>

text \<open>
  An entry of the map \<open>get_missing_active\<close> builds: a dictionary with exactly these keys.
  \<open>function\<close> is one of the plotting functions the data backends register; it returns the
  rendered diagram or raises.
\<close>

record 'a MissingSettings =
  min_missing :: int
  diagram_name :: string
  caption :: string
  diagram_function :: "Settings \<Rightarrow> 'a DataFrame \<Rightarrow> exn + pyval"

definition warn_missing :: "string \<Rightarrow> string \<Rightarrow> warning list \<Rightarrow> warning list" where
  "warn_missing missing_name error ws = ws @ [MissingWarning missing_name error]"

text \<open>
  \<open>handle_missing(name, fn)(config, df)\<close>: when \<open>fn\<close> raises a ValueError the wrapper
  warns and falls off its end, returning None.
\<close>

definition handle_missing ::
  "string \<Rightarrow> (Settings \<Rightarrow> 'a DataFrame \<Rightarrow> exn + pyval) \<Rightarrow> Settings \<Rightarrow> 'a DataFrame
   \<Rightarrow> warning list \<Rightarrow> (exn + pyval) \<times> warning list" where
  "handle_missing nm fn config df ws =
     (case fn config df of
        Inr r \<Rightarrow> (Inr r, ws)
      | Inl (Exn k m) \<Rightarrow>
          if k = ValueError then (Inr VNone, warn_missing nm m ws) else (Inl (Exn k m), ws))"

definition get_missing_diagram ::
  "Settings \<Rightarrow> 'a DataFrame \<Rightarrow> 'a MissingSettings \<Rightarrow> warning list
   \<Rightarrow> (exn + pydict option) \<times> warning list" where
  "get_missing_diagram config df settings ws =
     (if df_len df = 0 then (Inr None, ws)
      else (case handle_missing (diagram_name settings) (diagram_function settings) config df ws of
              (Inl e, ws') \<Rightarrow> (Inl e, ws')
            | (Inr r, ws') \<Rightarrow>
                if r = VNone then (Inr None, ws')
                else (Inr (Some [(''name'', VStr (diagram_name settings)),
                                 (''caption'', VStr (caption settings)),
                                 (''matrix'', r)]), ws')))"

section \<open>describe.py\<close>

text \<open>
  The correlation stage of \<open>describe\<close>: the comprehension that calls
  \<open>calculate_correlation\<close> for every active method, in order. An exception of one call ends
  the comprehension.
\<close>

fun calculate_all ::
  "'a compute \<Rightarrow> Settings \<Rightarrow> 'a DataFrame \<Rightarrow> (string \<times> pydict) list \<Rightarrow> string list
   \<Rightarrow> warning list \<Rightarrow> (exn + (string \<times> pyfloat DataFrame option) list) \<times> warning list" where
  "calculate_all compute config df series_description [] ws = (Inr [], ws)"
| "calculate_all compute config df series_description (correlation_name # names) ws =
     (case calculate_correlation compute config df correlation_name series_description ws of
        (Inl e, ws') \<Rightarrow> (Inl e, ws')
      | (Inr c, ws') \<Rightarrow>
          (case calculate_all compute config df series_description names ws' of
             (Inl e, ws'') \<Rightarrow> (Inl e, ws'')
           | (Inr cs, ws'') \<Rightarrow> (Inr ((correlation_name, c) # cs), ws'')))"

text \<open>\<open>{key: value for key, value in correlations.items() if value is not None}\<close>\<close>

definition drop_none :: "(string \<times> 'v option) list \<Rightarrow> (string \<times> 'v) list" where
  "drop_none items = concat (map (\<lambda>(key, v). case v of None \<Rightarrow> [] | Some m \<Rightarrow> [(key, m)]) items)"

definition describe_correlations ::
  "'a compute \<Rightarrow> Settings \<Rightarrow> 'a DataFrame \<Rightarrow> (string \<times> pydict) list \<Rightarrow> pydict \<Rightarrow> warning list
   \<Rightarrow> (exn + (string \<times> pyfloat DataFrame) list) \<times> warning list" where
  "describe_correlations compute config df series_description table_stats ws =
     (case dict_item table_stats ''n'' of
        Inl e \<Rightarrow> (Inl e, ws)
      | Inr n \<Rightarrow>
          if \<not> py_eq n (VInt 0)
          then (case calculate_all compute config df series_description
                       (get_active_correlations config) ws of
                  (Inl e, ws') \<Rightarrow> (Inl e, ws')
                | (Inr cs, ws') \<Rightarrow> (Inr (drop_none (dict_of_items cs)), ws'))
          else (Inr [], ws))"

text \<open>
  What \<open>describe\<close> returns, as far as the alert engine and the correlation stage decide it:
  the fields \<open>table\<close>, \<open>variables\<close>, \<open>correlations\<close> and \<open>alerts\<close> of the description.
\<close>

record BaseDescription =
  desc_table :: pydict
  desc_variables :: "(string \<times> pydict) list"
  desc_correlations :: "(string \<times> pyfloat DataFrame) list"
  desc_alerts :: "Alert list"

text \<open>
  \<open>describe\<close> from the table statistics on. The collaborators that are not part of these
  modules are taken by their results: \<open>series_description\<close> is what
  \<open>get_series_descriptions\<close> returned, \<open>table_stats\<close> what \<open>get_table_stats\<close> returned and
  \<open>metrics\<close> the first component of what \<open>get_duplicates\<close> returned. The progress bar only
  counts. The scatter, missing-diagram and sampling stages lie between the correlations
  and the duplicates; they read none of the values below and write none of them, so they
  can end the run with an exception but cannot change its result.
\<close>

definition describe ::
  "'a compute \<Rightarrow> Settings \<Rightarrow> 'a DataFrame \<Rightarrow> (string \<times> pydict) list \<Rightarrow> pydict \<Rightarrow> pydict
   \<Rightarrow> warning list \<Rightarrow> (exn + BaseDescription) \<times> warning list" where
  "describe compute config df series_description table_stats metrics ws =
     (case describe_correlations compute config df series_description table_stats ws of
        (Inl e, ws') \<Rightarrow> (Inl e, ws')
      | (Inr corrs, ws') \<Rightarrow>
          (let table_stats' = dict_update table_stats metrics
           in case get_alerts config table_stats' series_description corrs of
                Inl e \<Rightarrow> (Inl e, ws')
              | Inr alerts \<Rightarrow>
                  (Inr \<lparr>desc_table = table_stats', desc_variables = series_description,
                        desc_correlations = corrs, desc_alerts = alerts\<rparr>, ws')))"

section \<open>Notions the properties are stated with\<close>

text \<open>
  A square matrix: as many rows as columns, every row with one cell per column.
\<close>

definition square_matrix :: "'a DataFrame \<Rightarrow> bool" where
  "square_matrix M =
     (length (df_values M) = length (df_columns M)
      \<and> list_all (\<lambda>row. length row = length (df_columns M)) (df_values M))"

text \<open>Column \<open>j\<close> qualifies as a partner of column \<open>i\<close>: \<open>j \<noteq> i\<close> and \<open>|M[i][j]| \<ge> t\<close>.\<close>

definition qualifies :: "pyfloat DataFrame \<Rightarrow> pyfloat \<Rightarrow> nat \<Rightarrow> nat \<Rightarrow> bool" where
  "qualifies M t i j = (j \<noteq> i \<and> fge (fabs (df_values M ! i ! j)) t)"

text \<open>A configuration and two column summaries, for the concrete instances below.\<close>

definition example_config :: Settings where
  "example_config =
     \<lparr>vars = \<lparr>num_skewness_threshold = 20, num_chi_squared_threshold = Fin 0.999,
               cat_cardinality_threshold = 50, cat_chi_squared_threshold = Fin 0.99,
               cat_imbalance_threshold = Fin 0.5, bool_imbalance_threshold = Fin 0.5\<rparr>,
      correlations =
        [(''pearson'', \<lparr>calculate = True, warn_high_correlations = True, threshold = Fin 0.9\<rparr>),
         (''spearman'', \<lparr>calculate = True, warn_high_correlations = True, threshold = Fin 0.9\<rparr>),
         (''phi_k'', \<lparr>calculate = True, warn_high_correlations = False, threshold = Fin 0.9\<rparr>)],
      missing_diagrams = [(''bar'', True), (''matrix'', True), (''heatmap'', True)]\<rparr>"

definition length_summary :: pydict where
  "length_summary =
     [(''type'', VStr ''Categorical''), (''n'', VInt 5), (''n_distinct'', VInt 2),
      (''p_missing'', VFloat (Fin 0)), (''min_length'', VInt 3), (''max_length'', VInt 3)]"

definition uniform_summary :: pydict where
  "uniform_summary =
     [(''type'', VStr ''Categorical''), (''n'', VInt 5), (''n_distinct'', VInt 2),
      (''p_missing'', VFloat (Fin 0)), (''chi_squared'', VDict [(''pvalue'', VFloat (Fin 1))]),
      (''date_warning'', VBool True)]"

text \<open>Table statistics, a correlation matrix and the alerts of the concrete run.\<close>

definition example_table :: pydict where
  "example_table = [(''n'', VInt 5), (''n_duplicates'', VInt 2)]"

definition example_matrix :: "pyfloat DataFrame" where
  "example_matrix =
     \<lparr>df_columns = [''a'', ''b''], df_values = [[Fin 1, Fin 0.97], [Fin 0.97, Fin 1]]\<rparr>"

definition example_alerts :: "Alert list" where
  "example_alerts =
     [DuplicatesAlert (Some example_table) None False,
      correlation_alert (''a'', [''b'']),
      correlation_alert (''b'', [''a'']),
      backfill ''city'' uniform_summary (TypeDateAlert None None False),
      backfill ''city'' uniform_summary (UniformAlert None None False)]"

text \<open>Two methods that flag column \<open>a\<close> with different partners.\<close>

definition pearson_matrix :: "pyfloat DataFrame" where
  "pearson_matrix =
     \<lparr>df_columns = [''a'', ''b'', ''c''],
      df_values = [[Fin 1, Fin 0.95, Fin 0.1], [Fin 0.95, Fin 1, Fin 0.2], [Fin 0.1, Fin 0.2, Fin 1]]\<rparr>"

definition spearman_matrix :: "pyfloat DataFrame" where
  "spearman_matrix =
     \<lparr>df_columns = [''a'', ''b'', ''c''],
      df_values = [[Fin 1, Fin 0.3, Fin 0.95], [Fin 0.3, Fin 1, Fin 0.2], [Fin 0.95, Fin 0.2, Fin 1]]\<rparr>"

text \<open>A dataset with two rows and a diagram whose plotting function raises.\<close>

definition example_frame :: "int DataFrame" where
  "example_frame = \<lparr>df_columns = [''x''], df_values = [[1], [2]]\<rparr>"

definition failing_bar :: "int MissingSettings" where
  "failing_bar =
     \<lparr>min_missing = 0, diagram_name = ''bar'', caption = ''nullity by column'',
      diagram_function = (\<lambda>config df. Inl (Exn ValueError ''zero-size array''))\<rparr>"






text \<open>
  Backends for the concrete runs: \<open>phi_k\<close> raises a ValueError, \<open>spearman\<close> returns a
  matrix without rows, every other method returns \<open>example_matrix\<close>.
\<close>

definition example_compute :: "int compute" where
  "example_compute nm config df sd =
     (if nm = ''phi_k'' then Inl (Exn ValueError ''could not convert'')
      else if nm = ''spearman'' then Inr (Some \<lparr>df_columns = [], df_values = []\<rparr>)
      else Inr (Some example_matrix))"

text \<open>The alert types that belong to the table or to the correlations, not to a column.\<close>

definition column_type :: "AlertType \<Rightarrow> bool" where
  "column_type t = (t \<noteq> EMPTY \<and> t \<noteq> DUPLICATES \<and> t \<noteq> HIGH_CORRELATION)"

text \<open>A dataset with one column and no rows, as the pipeline describes it.\<close>

definition empty_frame :: "int DataFrame" where
  "empty_frame = \<lparr>df_columns = [''a''], df_values = []\<rparr>"

definition empty_table :: pydict where
  "empty_table = [(''n'', VInt 0), (''n_var'', VInt 1)]"

definition empty_metrics :: pydict where
  "empty_metrics = [(''n_duplicates'', VInt 0), (''p_duplicates'', VFloat (Fin 0))]"

definition unsupported_summary :: pydict where
  "unsupported_summary =
     [(''type'', VStr ''Unsupported''), (''n'', VInt 0), (''n_missing'', VInt 0),
      (''p_missing'', VFloat (Fin 0))]"

definition empty_description :: BaseDescription where
  "empty_description =
     \<lparr>desc_table = empty_table @ empty_metrics,
      desc_variables = [(''a'', unsupported_summary)],
      desc_correlations = [],
      desc_alerts =
        [EmptyAlert (Some (empty_table @ empty_metrics)) None False,
         backfill ''a'' unsupported_summary (RejectedAlert None None False),
         backfill ''a'' unsupported_summary (UnsupportedAlert None None False)]\<rparr>"

text \<open>
  The rounding the specification speaks of, as Python's \<open>round(x, ndigits)\<close> on the number
  \<open>x\<close> denotes: to the nearest multiple of \<open>10 ^ -ndigits\<close>, a tie going to the even one.
  No function of \<open>alerts.py\<close> on the way to a MISSING alert calls it.
\<close>

definition spec_round :: "nat \<Rightarrow> real \<Rightarrow> real" where
  "spec_round ndigits x =
     (let y = x * 10 ^ ndigits; f = \<lfloor>y\<rfloor>; d = y - real_of_int f
      in real_of_int (if d < 1 / 2 then f else if 1 / 2 < d then f + 1
                      else if even f then f else f + 1) / 10 ^ ndigits)"

section \<open>Properties of the threshold check\<close>

lemma dict_set_fresh: "k \<notin> fst ` set d \<Longrightarrow> dict_set d k v = d @ [(k, v)]"
  by (induction d) auto

lemma foldl_dict_set_distinct:
  "distinct (map fst (acc @ items)) \<Longrightarrow> foldl (\<lambda>d (k, v). dict_set d k v) acc items = acc @ items"
proof (induction items arbitrary: acc)
  case Nil
  then show ?case by simp
next
  case (Cons x items)
  obtain k v where x: "x = (k, v)" by (cases x)
  from Cons.prems have fresh: "k \<notin> fst ` set acc" by (auto simp: x)
  from Cons.prems have "distinct (map fst ((acc @ [(k, v)]) @ items))" by (auto simp: x)
  from Cons.IH[OF this] show ?case by (simp add: x dict_set_fresh[OF fresh])
qed

lemma dict_of_items_distinct: "distinct (map fst items) \<Longrightarrow> dict_of_items items = items"
  using foldl_dict_set_distinct[of "[]" items] by (simp add: dict_of_items_def)

lemma length_bool_index_of: "length (bool_index_of M t) = length (df_values M)"
  by (simp add: bool_index_of_def)

lemma bool_index_of_nth:
  "i < length (df_values M) \<Longrightarrow> bool_index_of M t ! i = bool_index_row t i (df_values M ! i)"
  by (simp add: bool_index_of_def nth_enumerate_eq)

lemma length_bool_index_row: "length (bool_index_row t i row) = length row"
  by (simp add: bool_index_row_def)

lemma bool_index_row_nth:
  "j < length row \<Longrightarrow> bool_index_row t i row ! j = (j \<noteq> i \<and> fge (fabs (row ! j)) t)"
  by (simp add: bool_index_row_def nth_enumerate_eq)





lemma list_ex_id_nth: "list_ex id m \<longleftrightarrow> (\<exists>j < length m. m ! j)"
proof
  assume "list_ex id m"
  then obtain x where "x \<in> set m" "x" by (auto simp: list_ex_iff)
  then show "\<exists>j < length m. m ! j" by (metis in_set_conv_nth)
next
  assume "\<exists>j < length m. m ! j"
  then obtain j where j: "j < length m" "m ! j" by blast
  from j(1) have "m ! j \<in> set m" by (rule nth_mem)
  with j(2) show "list_ex id m" unfolding list_ex_iff by (intro bexI[of _ "m ! j"]) simp_all
qed

lemma set_mask_select:
  assumes "length m = length cols"
  shows "set (mask_select cols m) = {cols ! j | j. j < length cols \<and> m ! j}"
proof (rule set_eqI, rule iffI)
  fix c assume "c \<in> set (mask_select cols m)"
  then obtain b where "(c, b) \<in> set (zip cols m)" "b"
    by (auto simp: mask_select_def)
  then obtain j where "j < length cols" "cols ! j = c" "m ! j = b"
    using assms by (auto simp: in_set_zip)
  with \<open>b\<close> show "c \<in> {cols ! j | j. j < length cols \<and> m ! j}" by blast
next
  fix c assume "c \<in> {cols ! j | j. j < length cols \<and> m ! j}"
  then obtain j where j: "j < length cols" "m ! j" "c = cols ! j" by blast
  then have "(cols ! j, m ! j) \<in> set (zip cols m)"
    using assms by (auto simp: in_set_zip)
  with j have "(c, True) \<in> set (zip cols m)" by simp
  then have "(c, True) \<in> set (filter snd (zip cols m))" by simp
  then have "fst (c, True) \<in> fst ` set (filter snd (zip cols m))" by (rule imageI)
  then show "c \<in> set (mask_select cols m)" by (simp add: mask_select_def)
qed

lemma square_row_length:
  "square_matrix M \<Longrightarrow> i < length (df_columns M) \<Longrightarrow> length (df_values M ! i) = length (df_columns M)"
  by (simp add: square_matrix_def list_all_length)

lemma perform_check_correlation_items:
  assumes sq: "square_matrix M" and dist: "distinct (df_columns M)"
  shows "perform_check_correlation M t =
     Inr (map (\<lambda>(i, col). (col, mask_select (df_columns M) (bool_index_of M t ! i)))
           (filter (\<lambda>(i, col). list_ex id (bool_index_of M t ! i)) (enumerate 0 (df_columns M))))"
proof -
  let ?sel = "filter (\<lambda>(i, col). list_ex id (bool_index_of M t ! i)) (enumerate 0 (df_columns M))"
  let ?items = "map (\<lambda>(i, col). (col, mask_select (df_columns M) (bool_index_of M t ! i))) ?sel"
  have eq: "map fst ?items = map snd ?sel"
    by (rule nth_equalityI) (simp_all add: case_prod_unfold)
  have "distinct (map snd (enumerate 0 (df_columns M)))"
    using dist by simp
  then have "distinct (map snd ?sel)" by (rule distinct_map_filter)
  then have "distinct (map fst ?items)" by (simp only: eq)
  then have "dict_of_items ?items = ?items" by (rule dict_of_items_distinct)
  moreover have "\<not> length (bool_index_of M t) < length (df_columns M)"
    using sq by (simp add: length_bool_index_of square_matrix_def)
  ultimately show ?thesis
    by (simp add: perform_check_correlation_def Let_def)
qed

lemma square_bool_index_cell:
  assumes sq: "square_matrix M" and i: "i < length (df_columns M)" and j: "j < length (df_columns M)"
  shows "bool_index_of M t ! i ! j = qualifies M t i j"
proof -
  have rows: "length (df_values M) = length (df_columns M)" using sq by (simp add: square_matrix_def)
  have row: "length (df_values M ! i) = length (df_columns M)" using sq i by (rule square_row_length)
  show ?thesis using i j by (simp add: bool_index_of_nth rows bool_index_row_nth row qualifies_def)
qed

lemma square_bool_index_length:
  assumes sq: "square_matrix M" and i: "i < length (df_columns M)"
  shows "length (bool_index_of M t ! i) = length (df_columns M)"
proof -
  have rows: "length (df_values M) = length (df_columns M)" using sq by (simp add: square_matrix_def)
  have row: "length (df_values M ! i) = length (df_columns M)" using sq i by (rule square_row_length)
  show ?thesis using i by (simp add: bool_index_of_nth rows length_bool_index_row row)
qed

lemma square_any_iff:
  assumes sq: "square_matrix M" and i: "i < length (df_columns M)"
  shows "list_ex id (bool_index_of M t ! i) \<longleftrightarrow> (\<exists>j < length (df_columns M). qualifies M t i j)"
proof -
  have cell: "\<And>j. j < length (df_columns M) \<Longrightarrow> bool_index_of M t ! i ! j = qualifies M t i j"
    by (rule square_bool_index_cell[OF sq i])
  have "list_ex id (bool_index_of M t ! i) \<longleftrightarrow> (\<exists>j < length (df_columns M). bool_index_of M t ! i ! j)"
    by (simp add: list_ex_id_nth square_bool_index_length[OF sq i])
  also have "\<dots> \<longleftrightarrow> (\<exists>j < length (df_columns M). qualifies M t i j)"
    using cell by blast
  finally show ?thesis .
qed

lemma square_partners:
  assumes sq: "square_matrix M" and i: "i < length (df_columns M)"
  shows "set (mask_select (df_columns M) (bool_index_of M t ! i))
      = {df_columns M ! j | j. j < length (df_columns M) \<and> qualifies M t i j}"
proof -
  have "set (mask_select (df_columns M) (bool_index_of M t ! i))
      = {df_columns M ! j | j. j < length (df_columns M) \<and> bool_index_of M t ! i ! j}"
    by (rule set_mask_select) (rule square_bool_index_length[OF sq i])
  also have "\<dots> = {df_columns M ! j | j. j < length (df_columns M) \<and> qualifies M t i j}"
    using square_bool_index_cell[OF sq i] by blast
  finally show ?thesis .
qed

lemma check_items_member:
  assumes sq: "square_matrix M"
  shows "(c, ps) \<in> set (map (\<lambda>(i, col). (col, mask_select (df_columns M) (bool_index_of M t ! i)))
           (filter (\<lambda>(i, col). list_ex id (bool_index_of M t ! i)) (enumerate 0 (df_columns M))))
     \<longleftrightarrow> (\<exists>i < length (df_columns M). c = df_columns M ! i
            \<and> (\<exists>j < length (df_columns M). qualifies M t i j)
            \<and> ps = mask_select (df_columns M) (bool_index_of M t ! i))"
  (is "?L \<longleftrightarrow> ?R")
proof
  assume ?L
  then obtain i col where mem: "(i, col) \<in> set (enumerate 0 (df_columns M))"
    and ex: "list_ex id (bool_index_of M t ! i)"
    and c: "c = col" and ps: "ps = mask_select (df_columns M) (bool_index_of M t ! i)"
    by auto
  from mem have i: "i < length (df_columns M)" and col: "col = df_columns M ! i"
    by (simp_all add: in_set_enumerate_eq)
  from ex have "\<exists>j < length (df_columns M). qualifies M t i j"
    by (simp add: square_any_iff[OF sq i])
  with i col c ps show ?R by blast
next
  assume ?R
  then obtain i where i: "i < length (df_columns M)" and c: "c = df_columns M ! i"
    and q: "\<exists>j < length (df_columns M). qualifies M t i j"
    and ps: "ps = mask_select (df_columns M) (bool_index_of M t ! i)" by blast
  from i have mem: "(i, df_columns M ! i) \<in> set (enumerate 0 (df_columns M))"
    by (simp add: in_set_enumerate_eq)
  from q have ex: "list_ex id (bool_index_of M t ! i)" by (simp add: square_any_iff[OF sq i])
  from mem ex have "(i, df_columns M ! i) \<in> set (filter (\<lambda>(i, col). list_ex id (bool_index_of M t ! i)) (enumerate 0 (df_columns M)))"
    by simp
  then have "(\<lambda>(i, col). (col, mask_select (df_columns M) (bool_index_of M t ! i))) (i, df_columns M ! i)
     \<in> (\<lambda>(i, col). (col, mask_select (df_columns M) (bool_index_of M t ! i))) ` set (filter (\<lambda>(i, col). list_ex id (bool_index_of M t ! i)) (enumerate 0 (df_columns M)))"
    by (rule imageI)
  then show ?L by (simp add: c ps)
qed

lemma nonempty_has_item: "xs \<noteq> [] \<Longrightarrow> \<exists>c ps. (c, ps) \<in> set xs"
  by (cases xs) auto

text \<open>
  Claim C2. For a square correlation matrix over distinct columns and any threshold,
  \<open>perform_check_correlation\<close> returns a mapping in which no column is its own partner,
  column \<open>j\<close> is listed for column \<open>i\<close> exactly when \<open>j \<noteq> i\<close> and \<open>|M[i][j]| \<ge> t\<close>, a column
  is a key exactly when it has such a partner, and which is empty when no entry off the
  diagonal meets the threshold (an empty matrix included).
\<close>

theorem perform_check_correlation_partners:
  assumes sq: "square_matrix M" and dist: "distinct (df_columns M)"
  shows "\<exists>res. perform_check_correlation M t = Inr res
     \<and> distinct (map fst res)
     \<and> (\<forall>c ps. (c, ps) \<in> set res \<longrightarrow> c \<notin> set ps)
     \<and> (\<forall>i < length (df_columns M). \<forall>j < length (df_columns M).
          (\<exists>ps. (df_columns M ! i, ps) \<in> set res \<and> df_columns M ! j \<in> set ps)
            \<longleftrightarrow> qualifies M t i j)
     \<and> (\<forall>i < length (df_columns M).
          df_columns M ! i \<in> fst ` set res
            \<longleftrightarrow> (\<exists>j < length (df_columns M). qualifies M t i j))
     \<and> fst ` set res \<subseteq> set (df_columns M)
     \<and> ((\<forall>i < length (df_columns M). \<forall>j < length (df_columns M). \<not> qualifies M t i j)
          \<longrightarrow> res = [])"
proof -
  let ?n = "length (df_columns M)"
  let ?cols = "df_columns M"
  let ?sel = "filter (\<lambda>(i, col). list_ex id (bool_index_of M t ! i)) (enumerate 0 ?cols)"
  let ?res = "map (\<lambda>(i, col). (col, mask_select ?cols (bool_index_of M t ! i))) ?sel"
  have res: "perform_check_correlation M t = Inr ?res"
    using sq dist by (rule perform_check_correlation_items)
  have mem: "\<And>c ps. (c, ps) \<in> set ?res \<longleftrightarrow>
      (\<exists>i < ?n. c = ?cols ! i \<and> (\<exists>j < ?n. qualifies M t i j)
          \<and> ps = mask_select ?cols (bool_index_of M t ! i))"
    by (rule check_items_member[OF sq])
  have part: "\<And>i. i < ?n \<Longrightarrow> set (mask_select ?cols (bool_index_of M t ! i))
      = {?cols ! j | j. j < ?n \<and> qualifies M t i j}"
    by (rule square_partners[OF sq])
  have inj: "\<And>i j. i < ?n \<Longrightarrow> j < ?n \<Longrightarrow> ?cols ! i = ?cols ! j \<longleftrightarrow> i = j"
    using dist by (simp add: nth_eq_iff_index_eq)
  have keys: "map fst ?res = map snd ?sel"
    by (rule nth_equalityI) (simp_all add: case_prod_unfold)
  have "distinct (map snd (enumerate 0 ?cols))" using dist by simp
  then have "distinct (map snd ?sel)" by (rule distinct_map_filter)
  then have c1: "distinct (map fst ?res)" by (simp only: keys)
  have c2: "\<forall>c ps. (c, ps) \<in> set ?res \<longrightarrow> c \<notin> set ps"
  proof (intro allI impI)
    fix c ps assume "(c, ps) \<in> set ?res"
    then obtain i where i: "i < ?n" and c: "c = ?cols ! i"
      and ps: "ps = mask_select ?cols (bool_index_of M t ! i)"
      unfolding mem by blast
    show "c \<notin> set ps"
    proof
      assume "c \<in> set ps"
      then obtain j where j: "j < ?n" and q: "qualifies M t i j" and cj: "c = ?cols ! j"
        unfolding ps part[OF i] by blast
      from cj c have "?cols ! i = ?cols ! j" by simp
      with inj[OF i j] have "i = j" by simp
      with q show False by (simp add: qualifies_def)
    qed
  qed
  have c3: "\<forall>i < ?n. \<forall>j < ?n.
      (\<exists>ps. (?cols ! i, ps) \<in> set ?res \<and> ?cols ! j \<in> set ps) \<longleftrightarrow> qualifies M t i j"
  proof (intro allI impI)
    fix i j assume i: "i < ?n" and j: "j < ?n"
    show "(\<exists>ps. (?cols ! i, ps) \<in> set ?res \<and> ?cols ! j \<in> set ps) \<longleftrightarrow> qualifies M t i j"
    proof
      assume "\<exists>ps. (?cols ! i, ps) \<in> set ?res \<and> ?cols ! j \<in> set ps"
      then obtain ps where a: "(?cols ! i, ps) \<in> set ?res" and b: "?cols ! j \<in> set ps" by blast
      from a obtain i' where i': "i' < ?n" and e: "?cols ! i = ?cols ! i'"
        and ps: "ps = mask_select ?cols (bool_index_of M t ! i')"
        unfolding mem by blast
      from e inj[OF i i'] have ii: "i' = i" by simp
      from b obtain j' where j': "j' < ?n" and q: "qualifies M t i j'" and e': "?cols ! j = ?cols ! j'"
        unfolding ps ii part[OF i] by blast
      from e' inj[OF j j'] have "j' = j" by simp
      with q show "qualifies M t i j" by simp
    next
      assume q: "qualifies M t i j"
      have a: "(?cols ! i, mask_select ?cols (bool_index_of M t ! i)) \<in> set ?res"
        unfolding mem using i j q by blast
      have b: "?cols ! j \<in> set (mask_select ?cols (bool_index_of M t ! i))"
        unfolding part[OF i] using j q by blast
      from a b show "\<exists>ps. (?cols ! i, ps) \<in> set ?res \<and> ?cols ! j \<in> set ps" by blast
    qed
  qed
  have fst_mem: "\<And>c. c \<in> fst ` set ?res \<longleftrightarrow> (\<exists>ps. (c, ps) \<in> set ?res)"
    by force
  have c4: "\<forall>i < ?n. ?cols ! i \<in> fst ` set ?res \<longleftrightarrow> (\<exists>j < ?n. qualifies M t i j)"
  proof (intro allI impI)
    fix i assume i: "i < ?n"
    show "?cols ! i \<in> fst ` set ?res \<longleftrightarrow> (\<exists>j < ?n. qualifies M t i j)"
    proof
      assume "?cols ! i \<in> fst ` set ?res"
      then obtain ps where "(?cols ! i, ps) \<in> set ?res" unfolding fst_mem by blast
      then obtain i' where i': "i' < ?n" and e: "?cols ! i = ?cols ! i'"
        and q: "\<exists>j < ?n. qualifies M t i' j"
        unfolding mem by blast
      from e inj[OF i i'] have "i' = i" by simp
      with q show "\<exists>j < ?n. qualifies M t i j" by simp
    next
      assume "\<exists>j < ?n. qualifies M t i j"
      then have "(?cols ! i, mask_select ?cols (bool_index_of M t ! i)) \<in> set ?res"
        unfolding mem using i by blast
      then show "?cols ! i \<in> fst ` set ?res" unfolding fst_mem by blast
    qed
  qed
  have c5: "fst ` set ?res \<subseteq> set ?cols"
  proof
    fix c assume "c \<in> fst ` set ?res"
    then obtain ps where "(c, ps) \<in> set ?res" unfolding fst_mem by blast
    then obtain i where "i < ?n" "c = ?cols ! i" unfolding mem by blast
    then show "c \<in> set ?cols" by simp
  qed
  have c6: "(\<forall>i < ?n. \<forall>j < ?n. \<not> qualifies M t i j) \<longrightarrow> ?res = []"
  proof
    assume none: "\<forall>i < ?n. \<forall>j < ?n. \<not> qualifies M t i j"
    show "?res = []"
    proof (rule ccontr)
      assume "?res \<noteq> []"
      then have "\<exists>c ps. (c, ps) \<in> set ?res" by (rule nonempty_has_item)
      then obtain c ps where "(c, ps) \<in> set ?res" by (elim exE)
      then obtain i j where "i < ?n" "j < ?n" "qualifies M t i j" unfolding mem by blast
      with none show False by blast
    qed
  qed
  from res c1 c2 c3 c4 c5 c6 show ?thesis by blast
qed

theorem perform_check_correlation_partners_witness:
  "square_matrix \<lparr>df_columns = [''a'', ''b''], df_values = [[Fin 1, Fin (- 0.97)], [Fin (- 0.97), Fin 1]]\<rparr>
   \<and> distinct [''a'', ''b'']
   \<and> perform_check_correlation
        \<lparr>df_columns = [''a'', ''b''], df_values = [[Fin 1, Fin (- 0.97)], [Fin (- 0.97), Fin 1]]\<rparr>
        (Fin 0.9) = Inr [(''a'', [''b'']), (''b'', [''a''])]
   \<and> qualifies \<lparr>df_columns = [''a'', ''b''], df_values = [[Fin 1, Fin (- 0.97)], [Fin (- 0.97), Fin 1]]\<rparr>
        (Fin 0.9) 0 1
   \<and> \<not> qualifies \<lparr>df_columns = [''a'', ''b''], df_values = [[Fin 1, Fin (- 0.97)], [Fin (- 0.97), Fin 1]]\<rparr>
        (Fin 0.9) 0 0"
  using perform_check_correlation_partners
    [of "\<lparr>df_columns = [''a'', ''b''], df_values = [[Fin 1, Fin (- 0.97)], [Fin (- 0.97), Fin 1]]\<rparr>" "Fin 0.9"]
  by (simp add: square_matrix_def qualifies_def perform_check_correlation_def bool_index_of_def
      bool_index_row_def mask_select_def dict_of_items_def fge_def enumerate_eq_zip upt_rec)

section \<open>Properties of the column rules\<close>

lemma ebind_Inr_iff: "ebind x f = Inr y \<longleftrightarrow> (\<exists>v. x = Inr v \<and> f v = Inr y)"
  by (cases x) (simp_all add: ebind_def)

lemma ebind_Inr [simp]: "ebind (Inr v) f = f v"
  by (simp add: ebind_def)

lemma ebind_Inl [simp]: "ebind (Inl e) f = Inl e"
  by (simp add: ebind_def)

lemma alert_value_num:
  "num_of v = Some x \<Longrightarrow> alert_value v = Inr (x \<noteq> NaN \<and> fgt x (Fin 0.01))"
  by (cases v) (auto simp: alert_value_def py_gt_num_def fgt_def)

lemma map_of_dict_set: "map_of (dict_set d k v) k' = (if k' = k then Some v else map_of d k')"
  by (induction d) auto

text \<open>
  Claim C6, amended. The generic rule emits a MISSING alert exactly when \<open>p_missing\<close> is a
  number that is not NaN and is greater than 0.01. The rule compares the value as it is:
  nothing is rounded before the comparison, so \<open>p_missing = 0.0104\<close>, which rounds to
  0.01, gives an alert. In particular \<open>p_missing = 0.009\<close> gives no alert and
  \<open>p_missing = 0.011\<close> gives one.
\<close>

theorem generic_alerts_missing:
  assumes "map_of summary ''p_missing'' = Some v" and "num_of v = Some p"
  shows "generic_alerts summary =
           Inr (if p \<noteq> NaN \<and> fgt p (Fin 0.01) then [MissingAlert None None False] else [])
       \<and> generic_alerts (dict_set summary ''p_missing'' (VFloat (Fin 0.009))) = Inr []
       \<and> generic_alerts (dict_set summary ''p_missing'' (VFloat (Fin 0.011)))
           = Inr [MissingAlert None None False]
       \<and> generic_alerts (dict_set summary ''p_missing'' (VFloat NaN)) = Inr []"
proof -
  have gen: "\<And>s w x. map_of s ''p_missing'' = Some w \<Longrightarrow> num_of w = Some x \<Longrightarrow>
      generic_alerts s = Inr (if x \<noteq> NaN \<and> fgt x (Fin 0.01) then [MissingAlert None None False] else [])"
    by (simp add: generic_alerts_def dict_item_def alert_value_num append_if_def)
  have look: "\<And>w. map_of (dict_set summary ''p_missing'' w) ''p_missing'' = Some w"
    by (simp add: map_of_dict_set)
  show ?thesis
    using gen[OF assms] gen[OF look, of "VFloat (Fin 0.009)" "Fin 0.009"]
      gen[OF look, of "VFloat (Fin 0.011)" "Fin 0.011"] gen[OF look, of "VFloat NaN" NaN]
    by (simp add: fgt_def)
qed

theorem generic_alerts_missing_witness:
  "map_of [(''type'', VStr ''Numeric''), (''p_missing'', VFloat (Fin 0.011))] ''p_missing''
      = Some (VFloat (Fin 0.011))
   \<and> num_of (VFloat (Fin 0.011)) = Some (Fin 0.011)
   \<and> generic_alerts [(''type'', VStr ''Numeric''), (''p_missing'', VFloat (Fin 0.011))]
      = Inr [MissingAlert None None False]
   \<and> generic_alerts [(''type'', VStr ''Numeric''), (''p_missing'', VFloat (Fin 0.009))] = Inr []"
  using generic_alerts_missing
    [of "[(''type'', VStr ''Numeric''), (''p_missing'', VFloat (Fin 0.011))]" "VFloat (Fin 0.011)" "Fin 0.011"]
  by (simp add: fgt_def)

lemma spec_round_example2: "spec_round 2 0.0104 = 0.01"
  by (simp add: spec_round_def Let_def)

lemma spec_round_example3: "spec_round 3 0.0104 = 0.01"
  by (simp add: spec_round_def Let_def)

theorem generic_alerts_missing_counterexample:
  "spec_round 2 0.0104 = 0.01
   \<and> spec_round 3 0.0104 = 0.01
   \<and> \<not> fgt (Fin (spec_round 3 0.0104)) (Fin 0.01)
   \<and> generic_alerts [(''type'', VStr ''Numeric''), (''p_missing'', VFloat (Fin 0.0104))]
       = Inr [MissingAlert None None False]"
proof -
  have run: "generic_alerts [(''type'', VStr ''Numeric''), (''p_missing'', VFloat (Fin 0.0104))]
       = Inr [MissingAlert None None False]"
    by (simp add: generic_alerts_def dict_item_def alert_value_def py_gt_num_def fgt_def
        append_if_def)
  have no: "\<not> fgt (Fin (spec_round 3 0.0104)) (Fin 0.01)"
    by (simp only: spec_round_example3) (simp add: fgt_def)
  show ?thesis by (intro conjI spec_round_example2 spec_round_example3 no run)
qed

lemma in_append_ifD: "x \<in> set (append_if c a) \<Longrightarrow> x = a \<and> c"
  by (simp add: append_if_def split: if_splits)

lemma set_append_if: "set (append_if c a) = (if c then {a} else {})"
  by (simp add: append_if_def)

lemma alert_type_Alert_init [simp]: "alert_type (Alert_init t vs col fs e) = t"
  by (simp add: Alert_init_def)

lemma py_eq_num: "num_of a = Some x \<Longrightarrow> num_of b = Some y \<Longrightarrow> py_eq a b = feq x y"
  by (cases a; cases b) (simp_all add: py_eq.simps)

lemma py_eq_num_left: "num_of a = Some x \<Longrightarrow> num_of b = None \<Longrightarrow> \<not> py_eq a b"
  by (cases a; cases b) (simp_all add: py_eq.simps)

lemma py_eq_num_right: "num_of a = None \<Longrightarrow> num_of b = Some y \<Longrightarrow> \<not> py_eq a b"
  by (cases a; cases b) (simp_all add: py_eq.simps)

lemma feq_Fin_iff: "feq x (Fin r) \<longleftrightarrow> x = Fin r"
  by (cases x) auto

lemma feq_Fin_left_iff: "feq (Fin r) y \<longleftrightarrow> y = Fin r"
  by (cases y) auto

lemma py_eq_one_left:
  assumes "py_eq a (VInt 1)"
  shows "py_eq a n = py_eq n (VInt 1)"
proof -
  have one: "num_of (VInt 1) = Some (Fin 1)" by simp
  obtain x where a: "num_of a = Some x"
    using assms py_eq_num_right[of a "VInt 1", OF _ one] by (cases "num_of a") auto
  from assms have x1: "x = Fin 1" by (simp add: py_eq_num[OF a one] feq_Fin_iff)
  show ?thesis
  proof (cases "num_of n")
    case None
    then show ?thesis using py_eq_num_left[OF a None] py_eq_num_right[OF None one] by simp
  next
    case (Some y)
    then show ?thesis
      by (simp add: py_eq_num[OF a Some] py_eq_num[OF Some one] x1 feq_Fin_iff feq_Fin_left_iff)
  qed
qed

text \<open>
  Claim C7. For a summary with the key \<open>n\<close>, \<open>supported_alerts\<close> emits UNIQUE exactly when
  \<open>n_distinct == n\<close> (so also for \<open>n_distinct = n = 0\<close>) and CONSTANT exactly when
  \<open>n_distinct == 1\<close>. A column with \<open>n_distinct == 1\<close> gets CONSTANT, and gets UNIQUE as
  well exactly when \<open>n == 1\<close>.
\<close>

theorem supported_alerts_unique_constant:
  assumes "map_of summary ''n'' = Some n"
  shows "\<exists>alerts. supported_alerts summary = Inr alerts
     \<and> (UNIQUE \<in> alert_type ` set alerts
          \<longleftrightarrow> py_eq (dict_get summary ''n_distinct'' (VFloat NaN)) n)
     \<and> (CONSTANT \<in> alert_type ` set alerts
          \<longleftrightarrow> py_eq (dict_get summary ''n_distinct'' (VFloat NaN)) (VInt 1))
     \<and> alert_type ` set alerts \<subseteq> {UNIQUE, CONSTANT}
     \<and> (py_eq (dict_get summary ''n_distinct'' (VFloat NaN)) (VInt 1)
          \<longrightarrow> CONSTANT \<in> alert_type ` set alerts
              \<and> (UNIQUE \<in> alert_type ` set alerts \<longleftrightarrow> py_eq n (VInt 1)))
     \<and> (map_of summary ''n_distinct'' = Some (VInt 0) \<and> n = VInt 0
          \<longrightarrow> UNIQUE \<in> alert_type ` set alerts)"
proof -
  let ?nd = "dict_get summary ''n_distinct'' (VFloat NaN)"
  let ?alerts = "append_if (py_eq ?nd n) (UniqueAlert None None False)
          @ append_if (py_eq ?nd (VInt 1)) (ConstantAlert (Some summary) None False)"
  have res: "supported_alerts summary = Inr ?alerts"
    using assms by (simp add: supported_alerts_def dict_item_def)
  have types: "alert_type ` set ?alerts
      = (if py_eq ?nd n then {UNIQUE} else {}) \<union> (if py_eq ?nd (VInt 1) then {CONSTANT} else {})"
    by (simp add: set_append_if image_Un UniqueAlert_def ConstantAlert_def)
  have u: "UNIQUE \<in> alert_type ` set ?alerts \<longleftrightarrow> py_eq ?nd n"
    unfolding types by simp
  have c: "CONSTANT \<in> alert_type ` set ?alerts \<longleftrightarrow> py_eq ?nd (VInt 1)"
    unfolding types by simp
  have sub: "alert_type ` set ?alerts \<subseteq> {UNIQUE, CONSTANT}"
    unfolding types by simp
  have one: "py_eq ?nd (VInt 1) \<longrightarrow> CONSTANT \<in> alert_type ` set ?alerts
              \<and> (UNIQUE \<in> alert_type ` set ?alerts \<longleftrightarrow> py_eq n (VInt 1))"
    unfolding u c using py_eq_one_left[of ?nd n] by blast
  have zero: "map_of summary ''n_distinct'' = Some (VInt 0) \<and> n = VInt 0
          \<longrightarrow> UNIQUE \<in> alert_type ` set ?alerts"
    unfolding u by (simp add: dict_get_def py_eq_num)
  from res u c sub one zero show ?thesis by blast
qed

theorem supported_alerts_unique_constant_witness:
  "map_of [(''n'', VInt 1), (''n_distinct'', VInt 1)] ''n'' = Some (VInt 1)
   \<and> py_eq (dict_get [(''n'', VInt 1), (''n_distinct'', VInt 1)] ''n_distinct'' (VFloat NaN)) (VInt 1)
   \<and> map alert_type (projr (supported_alerts [(''n'', VInt 1), (''n_distinct'', VInt 1)]))
        = [UNIQUE, CONSTANT]
   \<and> map_of [(''n'', VInt 0), (''n_distinct'', VInt 0)] ''n_distinct'' = Some (VInt 0)
   \<and> map alert_type (projr (supported_alerts [(''n'', VInt 0), (''n_distinct'', VInt 0)]))
        = [UNIQUE]
   \<and> map alert_type (projr (supported_alerts [(''n'', VInt 5), (''n_distinct'', VInt 1)]))
        = [CONSTANT]"
  using supported_alerts_unique_constant [of "[(''n'', VInt 1), (''n_distinct'', VInt 1)]" "VInt 1"]
    supported_alerts_unique_constant [of "[(''n'', VInt 0), (''n_distinct'', VInt 0)]" "VInt 0"]
  by (simp add: supported_alerts_def dict_item_def dict_get_def append_if_def
      UniqueAlert_def ConstantAlert_def py_eq_num)

lemma constant_length_Inr:
  "constant_length summary = Inr b \<Longrightarrow>
     b \<longleftrightarrow> (dict_contains summary ''composition''
          \<and> (\<exists>lo hi. map_of summary ''min_length'' = Some lo
                \<and> map_of summary ''max_length'' = Some hi \<and> py_eq lo hi))"
  by (auto simp: constant_length_def dict_item_def ebind_Inr_iff split: if_splits option.splits)

text \<open>
  Claim C8, amended. Whenever the categorical rules return, they emit a CONSTANT_LENGTH
  alert exactly when the summary has the key \<open>composition\<close> and
  \<open>min_length == max_length\<close>. Equal lengths without the key \<open>composition\<close> give no alert.
\<close>

theorem categorical_alerts_constant_length:
  assumes "categorical_alerts config summary = Inr alerts"
  shows "CONSTANT_LENGTH \<in> alert_type ` set alerts
     \<longleftrightarrow> (dict_contains summary ''composition''
          \<and> (\<exists>lo hi. map_of summary ''min_length'' = Some lo
                \<and> map_of summary ''max_length'' = Some hi \<and> py_eq lo hi))"
proof -
  from assms obtain high uniform const_len imbalance where
    cl: "constant_length summary = Inr const_len" and
    al: "alerts = append_if high (HighCardinalityAlert (Some summary) None False)
          @ append_if uniform (UniformAlert None None False)
          @ append_if (py_truthy (dict_get summary ''date_warning'' VNone))
              (TypeDateAlert None None False)
          @ append_if const_len (ConstantLengthAlert None None False)
          @ append_if imbalance (ImbalanceAlert (Some summary) None False)"
    unfolding categorical_alerts_def ebind_Inr_iff by blast
  have "CONSTANT_LENGTH \<in> alert_type ` set alerts \<longleftrightarrow> const_len"
    unfolding al
    by (simp add: set_append_if image_Un HighCardinalityAlert_def UniformAlert_def
        TypeDateAlert_def ConstantLengthAlert_def ImbalanceAlert_def)
  with constant_length_Inr[OF cl] show ?thesis by simp
qed

theorem categorical_alerts_constant_length_witness:
  "categorical_alerts example_config (dict_set length_summary ''composition'' VNone)
     = Inr [ConstantLengthAlert None None False]
   \<and> CONSTANT_LENGTH \<in> alert_type ` set [ConstantLengthAlert None None False]
   \<and> dict_contains (dict_set length_summary ''composition'' VNone) ''composition''"
  using categorical_alerts_constant_length
    [of example_config "dict_set length_summary ''composition'' VNone" "[ConstantLengthAlert None None False]"]
  by (simp add: categorical_alerts_def length_summary_def example_config_def dict_get_def
      py_gt_num_def fgt_def chi_squared_above_def imbalance_above_def constant_length_def
      dict_contains_def dict_item_def append_if_def ConstantLengthAlert_def py_eq_num map_of_dict_set)

theorem categorical_alerts_constant_length_counterexample:
  "map_of length_summary ''min_length'' = Some (VInt 3)
   \<and> map_of length_summary ''max_length'' = Some (VInt 3)
   \<and> py_eq (VInt 3) (VInt 3)
   \<and> categorical_alerts example_config length_summary = Inr []"
  by (simp add: categorical_alerts_def length_summary_def example_config_def dict_get_def
      py_gt_num_def fgt_def chi_squared_above_def imbalance_above_def constant_length_def
      dict_contains_def dict_item_def append_if_def py_eq_num)

lemma check_variable_alerts_shape:
  assumes "check_variable_alerts config col description = Inr alerts"
  shows "\<exists>xs. alerts = map (backfill col description) xs"
proof -
  from assms obtain generic typed where
    "alerts = map (backfill col description) (generic @ typed)"
    unfolding check_variable_alerts_def ebind_Inr_iff by blast
  then show ?thesis by blast
qed

text \<open>
  Claim C9. Every alert in the list \<open>check_variable_alerts\<close> returns has the column as its
  \<open>column_name\<close> and the whole column summary as its \<open>values\<close>, whatever the rule that
  built it passed to the constructor.
\<close>

theorem check_variable_alerts_backfill:
  assumes "check_variable_alerts config col description = Inr alerts"
  shows "\<forall>a \<in> set alerts. column_name a = Some col \<and> alert_values a = description"
proof -
  from check_variable_alerts_shape[OF assms] obtain xs where
    "alerts = map (backfill col description) xs" by blast
  then show ?thesis by (auto simp: backfill_def)
qed

lemma py_eq_str [simp]: "py_eq (VStr a) (VStr b) = (a = b)"
  by (simp add: py_eq.simps)

theorem check_variable_alerts_backfill_witness:
  "check_variable_alerts example_config ''city'' uniform_summary
     = Inr [backfill ''city'' uniform_summary (UniformAlert None None False),
            backfill ''city'' uniform_summary (TypeDateAlert None None False)]
   \<and> alert_values (UniformAlert None None False) = []
   \<and> column_name (TypeDateAlert None None False) = None
   \<and> column_name (backfill ''city'' uniform_summary (UniformAlert None None False)) = Some ''city''
   \<and> alert_values (backfill ''city'' uniform_summary (UniformAlert None None False))
       = uniform_summary
   \<and> column_name (backfill ''city'' uniform_summary (TypeDateAlert None None False)) = Some ''city''
   \<and> alert_values (backfill ''city'' uniform_summary (TypeDateAlert None None False))
       = uniform_summary"
  using check_variable_alerts_backfill
    [of example_config "''city''" uniform_summary
        "[backfill ''city'' uniform_summary (UniformAlert None None False),
          backfill ''city'' uniform_summary (TypeDateAlert None None False)]"]
  by (simp add: check_variable_alerts_def generic_alerts_def supported_alerts_def
      typed_alerts_def categorical_alerts_def uniform_summary_def example_config_def
      dict_get_def dict_item_def dict_contains_def alert_value_def py_gt_num_def fgt_def
      chi_squared_above_def imbalance_above_def constant_length_def append_if_def py_eq_num
      UniformAlert_def TypeDateAlert_def Alert_init_def backfill_def)

section \<open>Properties of the alert engine\<close>

lemma AlertType_str_le [simp]:
  "AlertType_str a \<le> AlertType_str b \<longleftrightarrow> AlertType_name a \<le> AlertType_name b"
  by (simp add: AlertType_str_def)

lemma AlertType_str_eq [simp]:
  "AlertType_str a = AlertType_str b \<longleftrightarrow> AlertType_name a = AlertType_name b"
  by (simp add: AlertType_str_def)

lemma AlertType_name_inj [simp]: "AlertType_name a = AlertType_name b \<longleftrightarrow> a = b"
  by (cases a; cases b) simp_all

lemma insort_key_order_cong:
  assumes "\<And>a b. f a \<le> f b \<longleftrightarrow> g a \<le> g b"
  shows "insort_key f x xs = insort_key g x xs"
  by (induction xs) (simp_all add: assms)

lemma sort_key_order_cong:
  assumes "\<And>a b. f a \<le> f b \<longleftrightarrow> g a \<le> g b"
  shows "sort_key f xs = sort_key g xs"
  by (induction xs) (simp_all add: insort_key_order_cong[of f g, OF assms])

lemma sort_key_str_name:
  "sort_key (\<lambda>alert. AlertType_str (alert_type alert)) xs
     = sort_key (\<lambda>alert. AlertType_name (alert_type alert)) xs"
  by (rule sort_key_order_cong) simp

lemma variable_alerts_concat:
  "variable_alerts config series_description = Inr column_alerts \<Longrightarrow>
     \<exists>per_column.
        list_all2 (\<lambda>item alerts. check_variable_alerts config (fst item) (snd item) = Inr alerts)
          series_description per_column
      \<and> column_alerts = concat per_column"
proof (induction series_description arbitrary: column_alerts)
  case Nil
  then show ?case by simp
next
  case (Cons item rest)
  obtain col description where item: "item = (col, description)" by (cases item)
  from Cons.prems obtain alerts more where
    a: "check_variable_alerts config col description = Inr alerts" and
    m: "variable_alerts config rest = Inr more" and
    c: "column_alerts = alerts @ more"
    unfolding item variable_alerts.simps ebind_Inr_iff by blast
  from Cons.IH[OF m] obtain pc where
    pc: "list_all2 (\<lambda>item alerts. check_variable_alerts config (fst item) (snd item) = Inr alerts) rest pc"
    and mc: "more = concat pc" by blast
  have "list_all2 (\<lambda>item alerts. check_variable_alerts config (fst item) (snd item) = Inr alerts)
          (item # rest) (alerts # pc)"
    using a pc by (simp add: item)
  moreover have "column_alerts = concat (alerts # pc)" using c mc by simp
  ultimately show ?case by blast
qed

text \<open>
  Claim C3. Whenever \<open>get_alerts\<close> returns, its list is the table alerts, then the alerts of
  every column in the order of the summaries, then the correlation alerts, sorted by the
  name of the alert type: a permutation of that concatenation, ascending in the name, in
  which alerts of one type keep the order they had. The result is a function of the four
  arguments, so equal arguments give the same list in the same order.
\<close>

theorem get_alerts_sorted:
  assumes "get_alerts config table_stats series_description corrs = Inr alerts"
  shows "\<exists>table_alerts per_column correlation_alerts.
       check_table_alerts table_stats = Inr table_alerts
     \<and> list_all2 (\<lambda>item as. check_variable_alerts config (fst item) (snd item) = Inr as)
          series_description per_column
     \<and> check_correlation_alerts config corrs = Inr correlation_alerts
     \<and> alerts = sort_key (\<lambda>a. AlertType_name (alert_type a))
                  (table_alerts @ concat per_column @ correlation_alerts)
     \<and> mset alerts = mset (table_alerts @ concat per_column @ correlation_alerts)
     \<and> sorted (map (\<lambda>a. AlertType_name (alert_type a)) alerts)
     \<and> (\<forall>k. filter (\<lambda>a. AlertType_name (alert_type a) = k) alerts
            = filter (\<lambda>a. AlertType_name (alert_type a) = k)
                (table_alerts @ concat per_column @ correlation_alerts))"
proof -
  from assms obtain t v c where
    t: "check_table_alerts table_stats = Inr t" and
    v: "variable_alerts config series_description = Inr v" and
    c: "check_correlation_alerts config corrs = Inr c" and
    a: "alerts = sort_key (\<lambda>alert. AlertType_str (alert_type alert)) (t @ v @ c)"
    unfolding get_alerts_def ebind_Inr_iff by blast
  from variable_alerts_concat[OF v] obtain pc where
    pc: "list_all2 (\<lambda>item as. check_variable_alerts config (fst item) (snd item) = Inr as)
          series_description pc" and vc: "v = concat pc" by blast
  let ?key = "\<lambda>a. AlertType_name (alert_type a)"
  have a': "alerts = sort_key ?key (t @ concat pc @ c)"
    unfolding a vc by (rule sort_key_str_name)
  have m: "mset alerts = mset (t @ concat pc @ c)"
    unfolding a' by (rule mset_sort)
  have s: "sorted (map ?key alerts)"
    unfolding a' by (rule sorted_sort_key)
  have st: "\<forall>k. filter (\<lambda>a. ?key a = k) alerts = filter (\<lambda>a. ?key a = k) (t @ concat pc @ c)"
    unfolding a' by (intro allI sort_key_stable)
  from t pc c a' m s st show ?thesis by blast
qed

lemma example_table_alerts:
  "check_table_alerts example_table = Inr [DuplicatesAlert (Some example_table) None False]"
  by (simp add: check_table_alerts_def example_table_def dict_get_def dict_item_def
      alert_value_def py_gt_num_def fgt_def append_if_def py_eq_num)

lemma example_column_alerts:
  "variable_alerts example_config [(''city'', uniform_summary)]
     = Inr [backfill ''city'' uniform_summary (UniformAlert None None False),
            backfill ''city'' uniform_summary (TypeDateAlert None None False)]"
  by (simp add: check_variable_alerts_def generic_alerts_def supported_alerts_def
      typed_alerts_def categorical_alerts_def uniform_summary_def example_config_def
      dict_get_def dict_item_def dict_contains_def alert_value_def py_gt_num_def fgt_def
      chi_squared_above_def imbalance_above_def constant_length_def append_if_def py_eq_num)

lemma example_check:
  "perform_check_correlation example_matrix (Fin 0.9) = Inr [(''a'', [''b'']), (''b'', [''a''])]"
  by (simp add: example_matrix_def perform_check_correlation_def bool_index_of_def
      bool_index_row_def mask_select_def dict_of_items_def fge_def enumerate_eq_zip upt_rec)

lemma example_correlation_alerts:
  "check_correlation_alerts example_config [(''pearson'', example_matrix)]
     = Inr [correlation_alert (''a'', [''b'']), correlation_alert (''b'', [''a''])]"
  by (simp add: check_correlation_alerts_def consolidate_method_def example_config_def
      dict_item_def example_check)

theorem get_alerts_sorted_witness:
  "get_alerts example_config example_table [(''city'', uniform_summary)]
       [(''pearson'', example_matrix)] = Inr example_alerts
   \<and> map alert_type example_alerts
       = [DUPLICATES, HIGH_CORRELATION, HIGH_CORRELATION, TYPE_DATE, UNIFORM]
   \<and> sorted (map (\<lambda>a. AlertType_name (alert_type a)) example_alerts)"
proof -
  have "get_alerts example_config example_table [(''city'', uniform_summary)]
       [(''pearson'', example_matrix)]
     = Inr (sort_key (\<lambda>alert. AlertType_str (alert_type alert))
         ([DuplicatesAlert (Some example_table) None False]
          @ [backfill ''city'' uniform_summary (UniformAlert None None False),
             backfill ''city'' uniform_summary (TypeDateAlert None None False)]
          @ [correlation_alert (''a'', [''b'']), correlation_alert (''b'', [''a''])]))"
    by (simp only: get_alerts_def example_table_alerts example_column_alerts
        example_correlation_alerts ebind_Inr)
  also have "\<dots> = Inr example_alerts"
    by (simp add: example_alerts_def sort_key_str_name
        DuplicatesAlert_def correlation_alert_def HighCorrelationAlert_def backfill_def
        UniformAlert_def TypeDateAlert_def Alert_init_def)
  finally have run: "get_alerts example_config example_table [(''city'', uniform_summary)]
       [(''pearson'', example_matrix)] = Inr example_alerts" .
  have types: "map alert_type example_alerts
       = [DUPLICATES, HIGH_CORRELATION, HIGH_CORRELATION, TYPE_DATE, UNIFORM]"
    by (simp add: example_alerts_def DuplicatesAlert_def correlation_alert_def
        HighCorrelationAlert_def backfill_def UniformAlert_def TypeDateAlert_def)
  from get_alerts_sorted[OF run] have "sorted (map (\<lambda>a. AlertType_name (alert_type a)) example_alerts)"
    by blast
  with run types show ?thesis by simp
qed

lemma pearson_check:
  "perform_check_correlation pearson_matrix (Fin 0.9) = Inr [(''a'', [''b'']), (''b'', [''a''])]"
  by (simp add: pearson_matrix_def perform_check_correlation_def bool_index_of_def
      bool_index_row_def mask_select_def dict_of_items_def fge_def enumerate_eq_zip upt_rec)

lemma spearman_check:
  "perform_check_correlation spearman_matrix (Fin 0.9) = Inr [(''a'', [''c'']), (''c'', [''a''])]"
  by (simp add: spearman_matrix_def perform_check_correlation_def bool_index_of_def
      bool_index_row_def mask_select_def dict_of_items_def fge_def enumerate_eq_zip upt_rec)

text \<open>
  Claim C1. With Pearson flagging \<open>a\<close> with partner \<open>b\<close> and Spearman flagging \<open>a\<close> with
  partner \<open>c\<close>, the alert of \<open>a\<close> lists only the partners of the method processed last, not
  the union, and the two processing orders give different partners.
\<close>

theorem check_correlation_alerts_last_method_wins:
  "check_correlation_alerts example_config
       [(''pearson'', pearson_matrix), (''spearman'', spearman_matrix)]
     = Inr [correlation_alert (''a'', [''c'']), correlation_alert (''b'', [''a'']),
            correlation_alert (''c'', [''a''])]
   \<and> check_correlation_alerts example_config
       [(''spearman'', spearman_matrix), (''pearson'', pearson_matrix)]
     = Inr [correlation_alert (''a'', [''b'']), correlation_alert (''c'', [''a'']),
            correlation_alert (''b'', [''a''])]"
  by (simp add: check_correlation_alerts_def consolidate_method_def example_config_def
      dict_item_def pearson_check spearman_check)

section \<open>Properties of the missing-value diagrams\<close>

text \<open>
  Claim C10. For a dataset without rows \<open>get_missing_diagram\<close> returns None and leaves the
  warnings as they are, whatever the settings entry and its plotting function; when the
  plotting function raises a ValueError on a dataset with rows, it returns None and one
  warning naming the diagram and the error is added.
\<close>

theorem get_missing_diagram_none:
  "(df_len df = 0 \<longrightarrow> get_missing_diagram config df settings ws = (Inr None, ws))
   \<and> (df_len df \<noteq> 0 \<and> diagram_function settings config df = Inl (Exn ValueError m)
        \<longrightarrow> get_missing_diagram config df settings ws
            = (Inr None, ws @ [MissingWarning (diagram_name settings) m]))"
  by (simp add: get_missing_diagram_def handle_missing_def warn_missing_def)

theorem get_missing_diagram_none_witness:
  "df_len \<lparr>df_columns = [''x''], df_values = ([] :: int list list)\<rparr> = 0
   \<and> get_missing_diagram example_config \<lparr>df_columns = [''x''], df_values = []\<rparr> failing_bar []
       = (Inr None, [])
   \<and> df_len example_frame \<noteq> 0
   \<and> diagram_function failing_bar example_config example_frame
       = Inl (Exn ValueError ''zero-size array'')
   \<and> get_missing_diagram example_config example_frame failing_bar []
       = (Inr None, [MissingWarning ''bar'' ''zero-size array''])"
  using get_missing_diagram_none
      [of "\<lparr>df_columns = [''x''], df_values = []\<rparr>" example_config failing_bar "[]" "''''"]
    get_missing_diagram_none
      [of example_frame example_config failing_bar "[]" "''zero-size array''"]
  by (simp add: df_len_def example_frame_def failing_bar_def)

section \<open>Properties of the correlation stage\<close>



























section \<open>Properties of a run over an empty dataset\<close>

lemma numeric_alerts_types:
  assumes "numeric_alerts config summary = Inr alerts"
  shows "\<forall>a \<in> set alerts. column_type (alert_type a)"
proof -
  from assms obtain skewed infinite zeros uniform where
    "alerts = append_if skewed (SkewedAlert (Some summary) None False)
          @ append_if infinite (InfiniteAlert (Some summary) None False)
          @ append_if zeros (ZerosAlert (Some summary) None False)
          @ append_if uniform (UniformAlert None None False)"
    unfolding numeric_alerts_def ebind_Inr_iff by blast
  then show ?thesis
    by (auto dest!: in_append_ifD
        simp: column_type_def SkewedAlert_def InfiniteAlert_def ZerosAlert_def UniformAlert_def)
qed

lemma timeseries_alerts_types:
  assumes "timeseries_alerts config summary = Inr alerts"
  shows "\<forall>a \<in> set alerts. column_type (alert_type a)"
proof -
  from assms obtain num stationary seasonal where
    n: "numeric_alerts config summary = Inr num" and
    a: "alerts = num
          @ append_if (\<not> py_truthy stationary) (NonStationaryAlert None None False)
          @ append_if (py_truthy seasonal) (SeasonalAlert None None False)"
    unfolding timeseries_alerts_def ebind_Inr_iff by blast
  from numeric_alerts_types[OF n] show ?thesis unfolding a
    by (auto dest!: in_append_ifD simp: column_type_def NonStationaryAlert_def SeasonalAlert_def)
qed

lemma categorical_alerts_types:
  assumes "categorical_alerts config summary = Inr alerts"
  shows "\<forall>a \<in> set alerts. column_type (alert_type a)"
proof -
  from assms obtain high uniform const_len imbalance where
    "alerts = append_if high (HighCardinalityAlert (Some summary) None False)
          @ append_if uniform (UniformAlert None None False)
          @ append_if (py_truthy (dict_get summary ''date_warning'' VNone))
              (TypeDateAlert None None False)
          @ append_if const_len (ConstantLengthAlert None None False)
          @ append_if imbalance (ImbalanceAlert (Some summary) None False)"
    unfolding categorical_alerts_def ebind_Inr_iff by blast
  then show ?thesis
    by (auto dest!: in_append_ifD
        simp: column_type_def HighCardinalityAlert_def UniformAlert_def TypeDateAlert_def
          ConstantLengthAlert_def ImbalanceAlert_def)
qed

lemma boolean_alerts_types:
  assumes "boolean_alerts config summary = Inr alerts"
  shows "\<forall>a \<in> set alerts. column_type (alert_type a)"
proof -
  from assms obtain imbalance where
    "alerts = append_if imbalance (ImbalanceAlert None None False)"
    unfolding boolean_alerts_def ebind_Inr_iff by blast
  then show ?thesis
    by (auto dest!: in_append_ifD simp: column_type_def ImbalanceAlert_def)
qed

lemma generic_alerts_types:
  assumes "generic_alerts summary = Inr alerts"
  shows "\<forall>a \<in> set alerts. column_type (alert_type a)"
proof -
  from assms obtain missing where
    "alerts = append_if missing (MissingAlert None None False)"
    unfolding generic_alerts_def ebind_Inr_iff by blast
  then show ?thesis
    by (auto dest!: in_append_ifD simp: column_type_def MissingAlert_def)
qed

lemma supported_alerts_types:
  assumes "supported_alerts summary = Inr alerts"
  shows "\<forall>a \<in> set alerts. column_type (alert_type a)"
proof -
  from assms obtain n where
    "alerts = append_if (py_eq (dict_get summary ''n_distinct'' (VFloat NaN)) n)
              (UniqueAlert None None False)
          @ append_if (py_eq (dict_get summary ''n_distinct'' (VFloat NaN)) (VInt 1))
              (ConstantAlert (Some summary) None False)"
    unfolding supported_alerts_def ebind_Inr_iff by blast
  then show ?thesis
    by (auto dest!: in_append_ifD simp: column_type_def UniqueAlert_def ConstantAlert_def)
qed

lemma unsupported_alerts_types:
  "\<forall>a \<in> set (unsupported_alerts summary). column_type (alert_type a)"
  by (simp add: unsupported_alerts_def column_type_def UnsupportedAlert_def RejectedAlert_def)

lemma typed_alerts_types:
  assumes "typed_alerts ty nm rule config description = Inr alerts"
    and "\<And>as. rule config description = Inr as \<Longrightarrow> \<forall>a \<in> set as. column_type (alert_type a)"
  shows "\<forall>a \<in> set alerts. column_type (alert_type a)"
  using assms by (auto simp: typed_alerts_def split: if_splits)

lemma alert_type_backfill [simp]: "alert_type (backfill col description a) = alert_type a"
  by (simp add: backfill_def)

lemma check_variable_alerts_types:
  assumes "check_variable_alerts config col description = Inr alerts"
  shows "\<forall>a \<in> set alerts. column_type (alert_type a)"
proof -
  from assms obtain generic ty typed where
    g: "generic_alerts description = Inr generic" and
    t: "(if py_eq ty (VStr ''Unsupported'') then Inr (unsupported_alerts description)
            else ebind (supported_alerts description) (\<lambda>supported.
                 ebind (typed_alerts ty ''Categorical'' categorical_alerts config description) (\<lambda>cat.
                 ebind (typed_alerts ty ''Numeric'' numeric_alerts config description) (\<lambda>num.
                 ebind (typed_alerts ty ''TimeSeries'' timeseries_alerts config description) (\<lambda>ts.
                 ebind (typed_alerts ty ''Boolean'' boolean_alerts config description) (\<lambda>bl.
                   Inr (supported @ cat @ num @ ts @ bl))))))) = Inr typed" and
    a: "alerts = map (backfill col description) (generic @ typed)"
    unfolding check_variable_alerts_def ebind_Inr_iff by blast
  have typed: "\<forall>a \<in> set typed. column_type (alert_type a)"
  proof (cases "py_eq ty (VStr ''Unsupported'')")
    case True
    with t have "typed = unsupported_alerts description" by simp
    then show ?thesis using unsupported_alerts_types[of description] by (simp only:)
  next
    case False
    with t obtain supported cat num ts bl where
      s: "supported_alerts description = Inr supported" and
      c: "typed_alerts ty ''Categorical'' categorical_alerts config description = Inr cat" and
      n: "typed_alerts ty ''Numeric'' numeric_alerts config description = Inr num" and
      ts: "typed_alerts ty ''TimeSeries'' timeseries_alerts config description = Inr ts" and
      b: "typed_alerts ty ''Boolean'' boolean_alerts config description = Inr bl" and
      ty: "typed = supported @ cat @ num @ ts @ bl"
      by (simp only: if_False ebind_Inr_iff sum.inject) blast
    note supported_alerts_types[OF s]
      typed_alerts_types[OF c categorical_alerts_types]
      typed_alerts_types[OF n numeric_alerts_types]
      typed_alerts_types[OF ts timeseries_alerts_types]
      typed_alerts_types[OF b boolean_alerts_types]
    then show ?thesis unfolding ty by auto
  qed
  with generic_alerts_types[OF g] show ?thesis unfolding a by auto
qed

lemma map_of_foldl_dict_set:
  "k \<notin> fst ` set m \<Longrightarrow> map_of (foldl (\<lambda>d (k, v). dict_set d k v) d m) k = map_of d k"
proof (induction m arbitrary: d)
  case Nil
  then show ?case by simp
next
  case (Cons x m)
  obtain k' v' where x: "x = (k', v')" by (cases x)
  from Cons.prems have ne: "k \<noteq> k'" and rest: "k \<notin> fst ` set m" by (auto simp: x)
  show ?case using Cons.IH[OF rest, of "dict_set d k' v'"] ne
    by (simp add: x map_of_dict_set)
qed

lemma map_of_dict_update:
  "k \<notin> fst ` set m \<Longrightarrow> map_of (dict_update d m) k = map_of d k"
  unfolding dict_update_def by (rule map_of_foldl_dict_set)

lemma describe_correlations_empty:
  assumes "map_of table_stats ''n'' = Some n" and "py_eq n (VInt 0)"
  shows "describe_correlations compute config df sd table_stats ws = (Inr [], ws)"
  using assms by (simp add: describe_correlations_def dict_item_def)

lemma check_correlation_alerts_Nil: "check_correlation_alerts config [] = Inr []"
  by (simp add: check_correlation_alerts_def)

lemma check_table_alerts_empty:
  assumes "map_of table ''n'' = Some n" and "py_eq n (VInt 0)"
    and "check_table_alerts table = Inr alerts"
  shows "length (filter (\<lambda>a. alert_type a = EMPTY) alerts) = 1
       \<and> (\<forall>a \<in> set alerts. column_name a = None \<and> alert_type a \<in> {DUPLICATES, EMPTY})"
proof -
  from assms obtain dup where
    "alerts = append_if dup (DuplicatesAlert (Some table) None False)
          @ append_if True (EmptyAlert (Some table) None False)"
    unfolding check_table_alerts_def ebind_Inr_iff dict_item_def by auto
  then show ?thesis
    by (simp add: append_if_def DuplicatesAlert_def EmptyAlert_def Alert_init_def)
qed

lemma concat_column_types:
  assumes "list_all2 (\<lambda>item as. check_variable_alerts config (fst item) (snd item) = Inr as) sd per_column"
  shows "\<forall>a \<in> set (concat per_column). column_type (alert_type a)"
  using assms
proof (induction rule: list_all2_induct)
  case Nil
  then show ?case by simp
next
  case (Cons item sd as per_column)
  from check_variable_alerts_types[OF Cons.hyps(1)] Cons.IH show ?case by auto
qed

lemma describe_empty_unfold:
  assumes n: "map_of table_stats ''n'' = Some n" and z: "py_eq n (VInt 0)"
  shows "describe compute config df sd table_stats metrics ws
     = (case get_alerts config (dict_update table_stats metrics) sd [] of
          Inl e \<Rightarrow> (Inl e, ws)
        | Inr alerts \<Rightarrow>
            (Inr \<lparr>desc_table = dict_update table_stats metrics, desc_variables = sd,
                  desc_correlations = [], desc_alerts = alerts\<rparr>, ws))"
  by (simp add: describe_def describe_correlations_empty[OF n z] Let_def)

lemma get_alerts_no_correlations:
  assumes "get_alerts config table sd [] = Inr alerts"
  shows "\<exists>table_alerts per_column.
       check_table_alerts table = Inr table_alerts
     \<and> list_all2 (\<lambda>item as. check_variable_alerts config (fst item) (snd item) = Inr as)
          sd per_column
     \<and> alerts = sort_key (\<lambda>a. AlertType_name (alert_type a)) (table_alerts @ concat per_column)"
proof -
  from assms obtain t v where
    t: "check_table_alerts table = Inr t" and
    v: "variable_alerts config sd = Inr v" and
    a: "alerts = sort_key (\<lambda>alert. AlertType_str (alert_type alert)) (t @ v @ [])"
    unfolding get_alerts_def check_correlation_alerts_Nil ebind_Inr ebind_Inr_iff by blast
  from variable_alerts_concat[OF v] obtain pc where
    pc: "list_all2 (\<lambda>item as. check_variable_alerts config (fst item) (snd item) = Inr as) sd pc"
    and vc: "v = concat pc" by blast
  have "alerts = sort_key (\<lambda>a. AlertType_name (alert_type a)) (t @ concat pc)"
    unfolding a vc by (simp add: sort_key_str_name)
  with t pc show ?thesis by blast
qed

text \<open>
  Claim C4, amended. In a run over a dataset with row count zero that completes, no
  correlation matrix is computed: the result has no correlations, no warning is added and
  the result is the same whatever the backends are. The alert list holds exactly one EMPTY
  alert and no HIGH_CORRELATION alert. It is the sorted list of the table alerts and of
  the alerts the column rules give for every column summary, so it has alerts of columns
  whenever the rules produce some; without columns every alert is a table alert.
\<close>

theorem describe_empty_dataset:
  assumes n: "map_of table_stats ''n'' = Some n" and z: "py_eq n (VInt 0)"
    and m: "''n'' \<notin> fst ` set metrics"
    and run: "describe compute config df sd table_stats metrics ws = (Inr d, ws')"
  shows "desc_correlations d = [] \<and> ws' = ws
     \<and> (\<forall>compute'. describe compute' config df sd table_stats metrics ws = (Inr d, ws))
     \<and> length (filter (\<lambda>a. alert_type a = EMPTY) (desc_alerts d)) = 1
     \<and> (\<forall>a \<in> set (desc_alerts d). alert_type a \<noteq> HIGH_CORRELATION)
     \<and> (\<exists>table_alerts per_column.
           check_table_alerts (dict_update table_stats metrics) = Inr table_alerts
         \<and> list_all2 (\<lambda>item as. check_variable_alerts config (fst item) (snd item) = Inr as)
             sd per_column
         \<and> desc_alerts d = sort_key (\<lambda>a. AlertType_name (alert_type a))
                             (table_alerts @ concat per_column))
     \<and> (sd = [] \<longrightarrow> (\<forall>a \<in> set (desc_alerts d).
                         column_name a = None \<and> alert_type a \<in> {DUPLICATES, EMPTY}))"
proof -
  let ?table = "dict_update table_stats metrics"
  let ?key = "\<lambda>a. AlertType_name (alert_type a)"
  from run obtain alerts where
    ga: "get_alerts config ?table sd [] = Inr alerts" and
    d: "d = \<lparr>desc_table = ?table, desc_variables = sd, desc_correlations = [],
            desc_alerts = alerts\<rparr>" and
    w: "ws' = ws"
    unfolding describe_empty_unfold[OF n z] by (auto split: sum.splits)
  have c1: "desc_correlations d = []" by (simp add: d)
  have da: "desc_alerts d = alerts" by (simp add: d)
  have c3: "\<forall>compute'. describe compute' config df sd table_stats metrics ws = (Inr d, ws)"
    unfolding describe_empty_unfold[OF n z] by (simp add: ga d)
  from get_alerts_no_correlations[OF ga] obtain t pc where
    t: "check_table_alerts ?table = Inr t" and
    pc: "list_all2 (\<lambda>item as. check_variable_alerts config (fst item) (snd item) = Inr as) sd pc" and
    a: "alerts = sort_key ?key (t @ concat pc)" by blast
  have n': "map_of ?table ''n'' = Some n" using n by (simp add: map_of_dict_update[OF m])
  from check_table_alerts_empty[OF n' z t] have
    t1: "length (filter (\<lambda>a. alert_type a = EMPTY) t) = 1" and
    t2: "\<forall>a \<in> set t. column_name a = None \<and> alert_type a \<in> {DUPLICATES, EMPTY}" by simp_all
  have col: "\<forall>a \<in> set (concat pc). column_type (alert_type a)"
    using pc by (rule concat_column_types)
  have "filter (\<lambda>a. alert_type a = EMPTY) (concat pc) = []"
    using col by (auto simp: filter_empty_conv column_type_def)
  then have "length (filter (\<lambda>a. alert_type a = EMPTY) (t @ concat pc)) = 1"
    using t1 by simp
  then have c4: "length (filter (\<lambda>a. alert_type a = EMPTY) (desc_alerts d)) = 1"
    unfolding da a by (simp only: filter_sort length_sort)
  have c5: "\<forall>a \<in> set (desc_alerts d). alert_type a \<noteq> HIGH_CORRELATION"
  proof
    fix x assume "x \<in> set (desc_alerts d)"
    then have "x \<in> set t \<or> x \<in> set (concat pc)" unfolding da a by (simp only: set_sort set_append Un_iff)
    then show "alert_type x \<noteq> HIGH_CORRELATION"
    proof
      assume "x \<in> set t"
      with t2 have "alert_type x \<in> {DUPLICATES, EMPTY}" by blast
      then show ?thesis by auto
    next
      assume "x \<in> set (concat pc)"
      with col have "column_type (alert_type x)" by blast
      then show ?thesis by (simp add: column_type_def)
    qed
  qed
  have c6: "\<exists>table_alerts per_column.
           check_table_alerts ?table = Inr table_alerts
         \<and> list_all2 (\<lambda>item as. check_variable_alerts config (fst item) (snd item) = Inr as)
             sd per_column
         \<and> desc_alerts d = sort_key ?key (table_alerts @ concat per_column)"
    using t pc a da by blast
  have c7: "sd = [] \<longrightarrow> (\<forall>a \<in> set (desc_alerts d).
                         column_name a = None \<and> alert_type a \<in> {DUPLICATES, EMPTY})"
  proof
    assume "sd = []"
    with pc have "pc = []" by simp
    then have "set (desc_alerts d) = set t" unfolding da a by simp
    with t2 show "\<forall>a \<in> set (desc_alerts d). column_name a = None \<and> alert_type a \<in> {DUPLICATES, EMPTY}"
      by simp
  qed
  from c1 w c3 c4 c5 c6 c7 show ?thesis by (intro conjI)
qed

lemma empty_update: "dict_update empty_table empty_metrics = empty_table @ empty_metrics"
  by (simp add: dict_update_def empty_table_def empty_metrics_def)

lemma empty_table_alerts:
  "check_table_alerts (empty_table @ empty_metrics)
     = Inr [EmptyAlert (Some (empty_table @ empty_metrics)) None False]"
  by (simp add: check_table_alerts_def empty_table_def empty_metrics_def dict_get_def
      dict_item_def alert_value_def py_gt_num_def fgt_def append_if_def py_eq_num)

lemma empty_column_alerts:
  "variable_alerts example_config [(''a'', unsupported_summary)]
     = Inr [backfill ''a'' unsupported_summary (UnsupportedAlert None None False),
            backfill ''a'' unsupported_summary (RejectedAlert None None False)]"
  by (simp add: check_variable_alerts_def generic_alerts_def unsupported_alerts_def
      unsupported_summary_def dict_item_def alert_value_def py_gt_num_def fgt_def append_if_def)

lemma empty_get_alerts:
  "get_alerts example_config (empty_table @ empty_metrics) [(''a'', unsupported_summary)] []
     = Inr (desc_alerts empty_description)"
proof -
  have "get_alerts example_config (empty_table @ empty_metrics) [(''a'', unsupported_summary)] []
     = Inr (sort_key (\<lambda>alert. AlertType_str (alert_type alert))
         ([EmptyAlert (Some (empty_table @ empty_metrics)) None False]
          @ [backfill ''a'' unsupported_summary (UnsupportedAlert None None False),
             backfill ''a'' unsupported_summary (RejectedAlert None None False)]
          @ []))"
    by (simp only: get_alerts_def empty_table_alerts empty_column_alerts
        check_correlation_alerts_Nil ebind_Inr)
  also have "\<dots> = Inr (desc_alerts empty_description)"
    by (simp add: empty_description_def sort_key_str_name EmptyAlert_def
        UnsupportedAlert_def RejectedAlert_def)
  finally show ?thesis .
qed

lemma empty_n: "map_of empty_table ''n'' = Some (VInt 0)"
  by (simp add: empty_table_def)

lemma zero_eq_zero: "py_eq (VInt 0) (VInt 0)"
  by (simp add: py_eq_num)

lemma empty_metrics_keys: "''n'' \<notin> fst ` set empty_metrics"
  by (simp add: empty_metrics_def)

lemma empty_run:
  "describe example_compute example_config empty_frame [(''a'', unsupported_summary)]
       empty_table empty_metrics [] = (Inr empty_description, [])"
  by (simp add: describe_empty_unfold[OF empty_n zero_eq_zero] empty_update empty_get_alerts
      empty_description_def)

theorem describe_empty_dataset_counterexample:
  "df_len empty_frame = 0
   \<and> map_of empty_table ''n'' = Some (VInt 0)
   \<and> describe example_compute example_config empty_frame [(''a'', unsupported_summary)]
        empty_table empty_metrics [] = (Inr empty_description, [])
   \<and> map alert_type (desc_alerts empty_description) = [EMPTY, REJECTED, UNSUPPORTED]
   \<and> map column_name (desc_alerts empty_description) = [None, Some ''a'', Some ''a'']"
proof -
  have len: "df_len empty_frame = 0" by (simp add: df_len_def empty_frame_def)
  have types: "map alert_type (desc_alerts empty_description) = [EMPTY, REJECTED, UNSUPPORTED]"
    by (simp add: empty_description_def EmptyAlert_def UnsupportedAlert_def RejectedAlert_def)
  have cols: "map column_name (desc_alerts empty_description) = [None, Some ''a'', Some ''a'']"
    by (simp add: empty_description_def EmptyAlert_def Alert_init_def backfill_def)
  show ?thesis by (intro conjI len empty_n empty_run types cols)
qed

theorem describe_empty_dataset_witness:
  "map_of empty_table ''n'' = Some (VInt 0)
   \<and> py_eq (VInt 0) (VInt 0)
   \<and> ''n'' \<notin> fst ` set empty_metrics
   \<and> describe example_compute example_config empty_frame [(''a'', unsupported_summary)]
        empty_table empty_metrics [] = (Inr empty_description, [])
   \<and> desc_correlations empty_description = []
   \<and> length (filter (\<lambda>a. alert_type a = EMPTY) (desc_alerts empty_description)) = 1"
proof -
  note claim = describe_empty_dataset[OF empty_n zero_eq_zero empty_metrics_keys empty_run]
  from claim have c1: "desc_correlations empty_description = []" by (rule conjunct1)
  from claim have c4: "length (filter (\<lambda>a. alert_type a = EMPTY) (desc_alerts empty_description)) = 1"
    by (elim conjE)
  show ?thesis
    by (intro conjI empty_n zero_eq_zero empty_metrics_keys empty_run c1 c4)
qed

end
